theory Spec2Isabelle
  imports Main "HOL-Library.Char_ord" "HOL-Library.List_Lexorder"
begin

section \<open>The Submeasure orchestrator (Measurement.py and its overrides)\<close>

text \<open>
  \<^verbatim>\<open>Submeasure.collect_measurement_data\<close> runs four methods in a row; the base class
  gives \<^verbatim>\<open>get_denominator\<close> and \<^verbatim>\<open>get_numerator\<close> a body of two calls each, and the
  concrete sub-measures override some of them. Every method is modelled by the list of
  the method entries it causes, in order (the logger calls are left out; a run in which
  no step raises). The data each step computes is modelled in the later sections.
\<close>

datatype submeasure =
    ASC_Sub_1 | ASC_Sub_2 | CDF_CH_Sub_1 | DEP_REM_Sub_1
  | I_SERV_Sub_1 | I_SERV_Sub_2 | SDOH_Sub_1

datatype call =
    Get_denominator | Get_populace | Remove_exclusions
  | Get_numerator | Apply_time_constraint | Find_performance_met
  | Stratify_data | Set_stratify | Return_final_data

text \<open>\<^verbatim>\<open>Submeasure.get_denominator\<close> and \<^verbatim>\<open>Submeasure.get_numerator\<close> of Measurement.py.\<close>

definition Submeasure_get_denominator :: "call list" where
  "Submeasure_get_denominator = [Get_populace, Remove_exclusions]"

definition Submeasure_get_numerator :: "call list" where
  "Submeasure_get_numerator = [Apply_time_constraint, Find_performance_met]"

text \<open>
  The overrides. Every sub-measure's \<^verbatim>\<open>get_denominator\<close> calls
  \<^verbatim>\<open>super().get_denominator()\<close>; ASC \<^verbatim>\<open>_Sub_2\<close> then calls \<^verbatim>\<open>self._get_populace()\<close>
  once more. Every \<^verbatim>\<open>get_numerator\<close> calls \<^verbatim>\<open>super().get_numerator()\<close>, except
  SDOH's, which calls \<^verbatim>\<open>_find_performance_met\<close> and then \<^verbatim>\<open>_apply_time_constraint\<close>
  itself.
\<close>

fun get_denominator :: "submeasure \<Rightarrow> call list" where
  "get_denominator ASC_Sub_2 =
     Get_denominator # Submeasure_get_denominator @ [Get_populace]"
| "get_denominator s = Get_denominator # Submeasure_get_denominator"

fun get_numerator :: "submeasure \<Rightarrow> call list" where
  "get_numerator SDOH_Sub_1 =
     [Get_numerator, Find_performance_met, Apply_time_constraint]"
| "get_numerator s = Get_numerator # Submeasure_get_numerator"

definition stratify_data :: "submeasure \<Rightarrow> call list" where
  "stratify_data s = [Stratify_data]"

definition return_final_data :: "submeasure \<Rightarrow> call list" where
  "return_final_data s = [Return_final_data]"

definition collect_measurement_data :: "submeasure \<Rightarrow> call list" where
  "collect_measurement_data s =
     get_denominator s @ get_numerator s @ stratify_data s @ return_final_data s"

text \<open>
  How each \<^verbatim>\<open>Measurement.get_submeasure_data\<close> drives a sub-measure: through
  \<^verbatim>\<open>collect_measurement_data\<close>, except \<^verbatim>\<open>I_Serv\<close> for its second sub-measure, where
  it calls \<^verbatim>\<open>get_denominator\<close>, \<^verbatim>\<open>get_numerator\<close>, \<^verbatim>\<open>_set_stratify\<close> and
  \<^verbatim>\<open>return_final_data\<close> itself.
\<close>

fun get_submeasure_data :: "submeasure \<Rightarrow> call list" where
  "get_submeasure_data I_SERV_Sub_2 =
     get_denominator I_SERV_Sub_2 @ get_numerator I_SERV_Sub_2
       @ [Set_stratify] @ return_final_data I_SERV_Sub_2"
| "get_submeasure_data s = collect_measurement_data s"

text \<open>The protocol of the specification, as a list of method entries.\<close>

definition fixed_protocol :: "call list" where
  "fixed_protocol =
     [Get_denominator, Get_populace, Remove_exclusions,
      Get_numerator, Apply_time_constraint, Find_performance_met,
      Stratify_data, Return_final_data]"

section \<open>Dates and timestamps (pandas Timestamp, datetime, dateutil)\<close>

text \<open>
  A pandas \<^verbatim>\<open>Timestamp\<close> is modelled by its \<^verbatim>\<open>value\<close>: the nanoseconds since
  1970-01-01 00:00:00. A calendar date is the number of days since 1970-01-01. The
  conversions between a day number and (year, month, day) are those of the proleptic
  Gregorian calendar that \<^verbatim>\<open>datetime\<close> uses.
\<close>

datatype timestamp = Ts (ns: int)

instantiation timestamp :: linorder
begin

definition less_eq_timestamp :: "timestamp \<Rightarrow> timestamp \<Rightarrow> bool" where
  "less_eq_timestamp a b = (ns a \<le> ns b)"

definition less_timestamp :: "timestamp \<Rightarrow> timestamp \<Rightarrow> bool" where
  "less_timestamp a b = (ns a < ns b)"

instance
  by standard (auto simp: less_eq_timestamp_def less_timestamp_def timestamp.expand)

end

definition ns_per_day :: int where
  "ns_per_day = 86400000000000"

fun date_of :: "timestamp \<Rightarrow> int" where
  \<comment> \<open>\<^verbatim>\<open>ts.date()\<close>, \<^verbatim>\<open>ts.normalize()\<close>: the day, the time of day dropped\<close>
  "date_of (Ts t) = t div ns_per_day"

fun time_of :: "timestamp \<Rightarrow> int" where
  "time_of (Ts t) = t mod ns_per_day"

definition is_leap :: "int \<Rightarrow> bool" where
  "is_leap y = (y mod 4 = 0 \<and> (y mod 100 \<noteq> 0 \<or> y mod 400 = 0))"

definition days_in_month :: "int \<Rightarrow> int \<Rightarrow> int" where
  \<comment> \<open>\<^verbatim>\<open>calendar.monthrange(y, m)[1]\<close>\<close>
  "days_in_month y m =
     (if m = 2 then (if is_leap y then 29 else 28)
      else if m = 4 \<or> m = 6 \<or> m = 9 \<or> m = 11 then 30 else 31)"

definition days_from_civil :: "int \<Rightarrow> int \<Rightarrow> int \<Rightarrow> int" where
  "days_from_civil y m d =
     (let y1 = (if m \<le> 2 then y - 1 else y);
          era = y1 div 400;
          yoe = y1 - era * 400;
          doy = (153 * (if m > 2 then m - 3 else m + 9) + 2) div 5 + d - 1;
          doe = yoe * 365 + yoe div 4 - yoe div 100 + doy
      in era * 146097 + doe - 719468)"

definition civil_from_days :: "int \<Rightarrow> int \<times> int \<times> int" where
  "civil_from_days z0 =
     (let z = z0 + 719468;
          era = z div 146097;
          doe = z - era * 146097;
          yoe = (doe - doe div 1460 + doe div 36524 - doe div 146096) div 365;
          doy = doe - (365 * yoe + yoe div 4 - yoe div 100);
          mp = (5 * doy + 2) div 153;
          d = doy - (153 * mp + 2) div 5 + 1;
          m = (if mp < 10 then mp + 3 else mp - 9);
          y = yoe + era * 400
      in (if m \<le> 2 then y + 1 else y, m, d))"

fun year_of :: "timestamp \<Rightarrow> int" where
  \<comment> \<open>\<^verbatim>\<open>ts.year\<close>, \<^verbatim>\<open>col.dt.year\<close>\<close>
  "year_of (Ts t) = fst (civil_from_days (t div ns_per_day))"

definition weekday :: "int \<Rightarrow> int" where
  \<comment> \<open>\<^verbatim>\<open>date.weekday()\<close> of a day number: Monday is 0; 1970-01-01 was a Thursday\<close>
  "weekday d = (d + 3) mod 7"

definition Timestamp :: "int \<Rightarrow> int \<Rightarrow> int \<Rightarrow> int \<Rightarrow> int \<Rightarrow> timestamp" where
  \<comment> \<open>\<^verbatim>\<open>pd.Timestamp(year, month, day, hour, minute)\<close>\<close>
  "Timestamp y m d hh mi =
     Ts (days_from_civil y m d * ns_per_day + (hh * 3600 + mi * 60) * 1000000000)"

fun add_days :: "timestamp \<Rightarrow> int \<Rightarrow> timestamp" where
  \<comment> \<open>\<^verbatim>\<open>ts + timedelta(days=n)\<close>\<close>
  "add_days (Ts t) n = Ts (t + n * ns_per_day)"

definition shift_months :: "int \<times> int \<times> int \<Rightarrow> int \<Rightarrow> int" where
  \<comment> \<open>the day number of (year, month, day) moved by \<^verbatim>\<open>1 <= n <= 12\<close> months, as
      \<^verbatim>\<open>relativedelta.__radd__\<close> computes it: the month moved, the year carried, the day
      clipped to the length of the new month\<close>
  "shift_months ymd n =
     (let y = fst ymd; m = fst (snd ymd) + n;
          y1 = (if m > 12 then y + 1 else y);
          m1 = (if m > 12 then m - 12 else m);
          d1 = min (days_in_month y1 m1) (snd (snd ymd))
      in days_from_civil y1 m1 d1)"

fun add_months :: "timestamp \<Rightarrow> int \<Rightarrow> timestamp" where
  \<comment> \<open>\<^verbatim>\<open>ts + relativedelta(months=n)\<close>, \<^verbatim>\<open>ts + pd.DateOffset(months=n)\<close>; the time of
      day is kept\<close>
  "add_months (Ts t) n =
     Ts (shift_months (civil_from_days (t div ns_per_day)) n * ns_per_day + t mod ns_per_day)"

fun days_between :: "timestamp \<Rightarrow> timestamp \<Rightarrow> int" where
  \<comment> \<open>\<^verbatim>\<open>(a - b).days\<close>: a Timedelta's whole days, rounded down\<close>
  "days_between (Ts a) (Ts b) = (a - b) div ns_per_day"

definition floordiv_365_25 :: "int \<Rightarrow> int" where
  \<comment> \<open>\<^verbatim>\<open>n // 365.25\<close> for a whole number n of days. 365.25 is 1461/4, a binary
      fraction, so the float quotient's floor is that of the exact quotient 4n/1461\<close>
  "floordiv_365_25 n = (4 * n) div 1461"

section \<open>Tables (the pandas DataFrame operations the measures use)\<close>

text \<open>
  A DataFrame is a list of rows, a row a record of its columns; a missing value (NaN, NaT,
  None) of a column is \<open>None\<close> of an option type. A record's field names are global in
  Isabelle, so the columns of a table carry a prefix naming the table where two tables
  share a column name.
\<close>

fun drop_duplicates :: "('a \<Rightarrow> 'k) \<Rightarrow> 'a list \<Rightarrow> 'a list" where
  \<comment> \<open>\<^verbatim>\<open>df.drop_duplicates(subset, keep='first')\<close>: the first row of every key, in order\<close>
  "drop_duplicates k [] = []"
| "drop_duplicates k (x # xs) = x # drop_duplicates k (filter (\<lambda>y. k y \<noteq> k x) xs)"

definition drop_duplicates_last :: "('a \<Rightarrow> 'k) \<Rightarrow> 'a list \<Rightarrow> 'a list" where
  \<comment> \<open>\<^verbatim>\<open>df.drop_duplicates(subset, keep='last')\<close>\<close>
  "drop_duplicates_last k xs = rev (drop_duplicates k (rev xs))"

definition sort_values :: "('a \<Rightarrow> 'k::linorder) \<Rightarrow> 'a list \<Rightarrow> 'a list" where
  \<comment> \<open>\<^verbatim>\<open>df.sort_values(col)\<close>; rows with equal keys keep their order\<close>
  "sort_values k xs = sort_key k xs"

definition sort_values_na_last :: "('a \<Rightarrow> 'v::linorder option) \<Rightarrow> 'a list \<Rightarrow> 'a list" where
  \<comment> \<open>\<^verbatim>\<open>df.sort_values(col)\<close> on a column with missing values: they come last\<close>
  "sort_values_na_last k xs =
     map snd (sort_key fst (concat (map (\<lambda>r. case k r of None \<Rightarrow> [] | Some v \<Rightarrow> [(v, r)]) xs)))
     @ filter (\<lambda>r. k r = None) xs"

definition merge_inner ::
  "('a \<Rightarrow> 'k) \<Rightarrow> ('b \<Rightarrow> 'k) \<Rightarrow> ('a \<Rightarrow> 'b \<Rightarrow> 'c) \<Rightarrow> 'a list \<Rightarrow> 'b list \<Rightarrow> 'c list" where
  \<comment> \<open>\<^verbatim>\<open>left.merge(right)\<close> (how='inner') on the key columns: every pair of a left and a
      right row with equal keys, in the order of the left rows\<close>
  "merge_inner ka kb join xs ys =
     concat (map (\<lambda>x. map (join x) (filter (\<lambda>y. kb y = ka x) ys)) xs)"

definition merge_left ::
  "('a \<Rightarrow> 'k) \<Rightarrow> ('b \<Rightarrow> 'k) \<Rightarrow> ('a \<Rightarrow> 'b option \<Rightarrow> 'c) \<Rightarrow> 'a list \<Rightarrow> 'b list \<Rightarrow> 'c list" where
  \<comment> \<open>\<^verbatim>\<open>left.merge(right, how='left')\<close>: as the inner merge, and a left row with no match
      is kept once, the right columns missing\<close>
  "merge_left ka kb join xs ys =
     concat (map (\<lambda>x. case filter (\<lambda>y. kb y = ka x) ys of
                         [] \<Rightarrow> [join x None]
                       | m # ms \<Rightarrow> map (\<lambda>y. join x (Some y)) (m # ms)) xs)"

definition groupby :: "('a \<Rightarrow> 'k::linorder) \<Rightarrow> 'a list \<Rightarrow> ('k \<times> 'a list) list" where
  \<comment> \<open>\<^verbatim>\<open>df.groupby(col)\<close>: the groups in the order of their keys, the rows of a group in
      the order of the table\<close>
  "groupby k xs = map (\<lambda>key. (key, filter (\<lambda>r. k r = key) xs)) (sort (remdups (map k xs)))"

section \<open>Strings (str, astype(str), str.contains)\<close>

definition digit_char :: "int \<Rightarrow> char" where
  "digit_char d =
     (if d = 0 then CHR ''0'' else if d = 1 then CHR ''1'' else if d = 2 then CHR ''2''
      else if d = 3 then CHR ''3'' else if d = 4 then CHR ''4'' else if d = 5 then CHR ''5''
      else if d = 6 then CHR ''6'' else if d = 7 then CHR ''7'' else if d = 8 then CHR ''8''
      else CHR ''9'')"

function str_digits :: "int \<Rightarrow> string" where
  \<comment> \<open>the decimal digits of a number that is not negative\<close>
  "str_digits n =
     (if n < 10 then [digit_char n] else str_digits (n div 10) @ [digit_char (n mod 10)])"
  by pat_completeness auto
termination
  by (relation "measure nat") auto

declare str_digits.simps [simp del]

definition str_int :: "int \<Rightarrow> string" where
  \<comment> \<open>\<^verbatim>\<open>str(i)\<close> of an integer\<close>
  "str_int i = (if i < 0 then CHR ''-'' # str_digits (- i) else str_digits i)"

fun is_prefix :: "string \<Rightarrow> string \<Rightarrow> bool" where
  "is_prefix [] ys = True"
| "is_prefix (x # xs) [] = False"
| "is_prefix (x # xs) (y # ys) = (x = y \<and> is_prefix xs ys)"

fun str_contains :: "string \<Rightarrow> string \<Rightarrow> bool" where
  \<comment> \<open>\<^verbatim>\<open>pat in s\<close>, \<^verbatim>\<open>col.str.contains(pat)\<close> for a pattern with no regex metacharacter\<close>
  "str_contains pat [] = (pat = [])"
| "str_contains pat (c # cs) = (is_prefix pat (c # cs) \<or> str_contains pat cs)"

definition create_measurement_year_id :: "int \<Rightarrow> int \<Rightarrow> string" where
  \<comment> \<open>\<^verbatim>\<open>PatientId.astype(str) + '-' + year.astype(str)\<close>, for a year column of integers\<close>
  "create_measurement_year_id pid y = str_int pid @ ''-'' @ str_int y"

section \<open>CDF-CH (CDF_CH.py, class \<^verbatim>\<open>_Sub_1\<close>)\<close>

text \<open>
  The tables that \<^verbatim>\<open>pd.read_sql\<close> returns are the inputs of the model. An encounter row
  always has a visit time (the query selects on its year); the date of birth comes from a
  LEFT JOIN and may be missing.
\<close>

record encounter =
  enc_PatientId :: int
  enc_EncounterId :: int
  enc_VisitDateTime :: timestamp
  enc_DOB :: "timestamp option"

record populace_row = encounter +
  enc_patient_measurement_year_id :: string

record aged_row = populace_row +
  enc_age :: "int option"

record diagnosis =
  dx_PatientId :: int
  dx_exclusion_date :: "timestamp option"

record screening =
  scr_PatientId :: int
  scr_EncounterID :: int
  scr_screening_date :: "timestamp option"
  scr_TotalScore :: "int option"

record prepped_screening =
  ps_screening_encounter_id :: int
  ps_screening_date :: "timestamp option"
  ps_screening_score :: "int option"
  ps_patient_measurement_year_id :: string

record screened_row = aged_row +
  ch_screening_encounter_id :: "int option"
  ch_screening_date :: "timestamp option"
  ch_screening_score :: "int option"

record judged_row = screened_row +
  ch_positive_screening :: bool

record numerator_row = judged_row +
  ch_last_encounter :: "timestamp option"
  ch_numerator :: bool
  ch_numerator_desc :: "string option"

record cdf_ch_cohort =
  co_patient_measurement_year_id :: string
  co_PatientId :: int
  co_EncounterId :: int
  co_screening_encounter_id :: "int option"
  co_last_encounter :: "timestamp option"
  co_numerator :: bool
  co_numerator_desc :: "string option"

record cdf_ch_db =
  db_encounters :: "encounter list"
  db_depressions :: "diagnosis list"
  db_bipolars :: "diagnosis list"
  db_screenings :: "screening list"

definition CDF_CH_get_populace :: "encounter list \<Rightarrow> populace_row list" where
  \<comment> \<open>\<^verbatim>\<open>_get_populace\<close>: the id column, then
      \<^verbatim>\<open>sort_values(by=[id, VisitDateTime]).drop_duplicates(id, keep='first')\<close>\<close>
  "CDF_CH_get_populace encs =
     drop_duplicates enc_patient_measurement_year_id
       (sort_values enc_patient_measurement_year_id
         (sort_values enc_VisitDateTime
           (map (\<lambda>e. encounter.extend e (populace_row.fields
                   (create_measurement_year_id (enc_PatientId e) (year_of (enc_VisitDateTime e)))))
              encs)))"

definition calculate_age_days :: "timestamp \<Rightarrow> timestamp option \<Rightarrow> int option" where
  \<comment> \<open>\<^verbatim>\<open>(VisitDateTime - DOB).dt.days // 365.25\<close> of one row; NaN where DOB is missing\<close>
  "calculate_age_days visit dob =
     (case dob of None \<Rightarrow> None | Some b \<Rightarrow> Some (floordiv_365_25 (days_between visit b)))"

definition CDF_CH_calculate_age :: "populace_row list \<Rightarrow> aged_row list" where
  "CDF_CH_calculate_age pop =
     map (\<lambda>r. populace_row.extend r (aged_row.fields
            (calculate_age_days (enc_VisitDateTime r) (enc_DOB r)))) pop"

definition CDF_CH_filter_age :: "aged_row list \<Rightarrow> aged_row list" where
  \<comment> \<open>\<^verbatim>\<open>populace[(populace['age'] >= 12) & (populace['age'] <= 17)]\<close>; a comparison with
      NaN is False\<close>
  "CDF_CH_filter_age pop =
     filter (\<lambda>r. case enc_age r of None \<Rightarrow> False | Some a \<Rightarrow> 12 \<le> a \<and> a \<le> 17) pop"

definition CDF_CH_remove_age_exclusion :: "populace_row list \<Rightarrow> aged_row list" where
  "CDF_CH_remove_age_exclusion pop = CDF_CH_filter_age (CDF_CH_calculate_age pop)"

definition CDF_CH_filter_mental_exclsusion :: "aged_row list \<Rightarrow> diagnosis list \<Rightarrow> aged_row list" where
  \<comment> \<open>the first exclusion date of every patient, merged onto the populace (how='left', on
      PatientId); a row stays when its visit is not after that date, or there is no date\<close>
  "CDF_CH_filter_mental_exclsusion pop exclusions =
     (let ex = drop_duplicates dx_PatientId
                 (sort_values dx_PatientId (sort_values_na_last dx_exclusion_date exclusions));
          merged = merge_left enc_PatientId dx_PatientId
                     (\<lambda>r e. (r, case e of None \<Rightarrow> None | Some d \<Rightarrow> dx_exclusion_date d)) pop ex
      in map fst (filter (\<lambda>(r, d). case d of None \<Rightarrow> True
                                      | Some t \<Rightarrow> enc_VisitDateTime r \<le> t) merged))"

definition CDF_CH_remove_mental_exclusions ::
  "aged_row list \<Rightarrow> diagnosis list \<Rightarrow> diagnosis list \<Rightarrow> aged_row list" where
  \<comment> \<open>\<^verbatim>\<open>__get_depressions\<close> and \<^verbatim>\<open>__get_bipolars\<close> end in \<^verbatim>\<open>.drop_duplicates()\<close>\<close>
  "CDF_CH_remove_mental_exclusions pop d b =
     CDF_CH_filter_mental_exclsusion
       (CDF_CH_filter_mental_exclsusion pop (drop_duplicates id d)) (drop_duplicates id b)"

definition CDF_CH_get_denominator :: "cdf_ch_db \<Rightarrow> aged_row list" where
  \<comment> \<open>\<^verbatim>\<open>_get_populace\<close>, then \<^verbatim>\<open>_remove_exclusions\<close>\<close>
  "CDF_CH_get_denominator db =
     CDF_CH_remove_mental_exclusions
       (CDF_CH_remove_age_exclusion (CDF_CH_get_populace (db_encounters db)))
       (db_depressions db) (db_bipolars db)"

definition year_astype_str :: "timestamp option list \<Rightarrow> timestamp option \<Rightarrow> string" where
  \<comment> \<open>\<^verbatim>\<open>col.dt.year.astype(str)\<close> of one entry of a date column: the years of a column
      with a missing date are floats, printed with \<^verbatim>\<open>.0\<close>\<close>
  "year_astype_str col d =
     (case d of None \<Rightarrow> ''nan''
      | Some t \<Rightarrow> if None \<in> set col then str_int (year_of t) @ ''.0'' else str_int (year_of t))"

definition CDF_CH_prep_screenings_for_merge :: "screening list \<Rightarrow> prepped_screening list" where
  \<comment> \<open>the id column, the renaming, \<^verbatim>\<open>sort_values([id, screening_date])\<close>,
      \<^verbatim>\<open>drop_duplicates(keep='last')\<close> of whole rows, PatientId dropped. The score is
      taken as already numeric (\<^verbatim>\<open>pd.to_numeric(errors='coerce')\<close>: missing when it is
      not a number)\<close>
  "CDF_CH_prep_screenings_for_merge scr =
     (let col = map scr_screening_date scr;
          ided = map (\<lambda>s. (s, str_int (scr_PatientId s) @ ''-''
                              @ year_astype_str col (scr_screening_date s))) scr;
          sorted = sort_values snd (sort_values_na_last (\<lambda>p. scr_screening_date (fst p)) ided)
      in map (\<lambda>(s, i). \<lparr>ps_screening_encounter_id = scr_EncounterID s,
                         ps_screening_date = scr_screening_date s,
                         ps_screening_score = scr_TotalScore s,
                         ps_patient_measurement_year_id = i\<rparr>)
           (drop_duplicates_last id sorted))"

definition CDF_CH_add_screenings_to_populace ::
  "aged_row list \<Rightarrow> screening list \<Rightarrow> screened_row list" where
  \<comment> \<open>\<^verbatim>\<open>populace.merge(screenings, on='patient_measurement_year_id', how='left')\<close>\<close>
  "CDF_CH_add_screenings_to_populace pop scr =
     merge_left enc_patient_measurement_year_id ps_patient_measurement_year_id
       (\<lambda>r s. aged_row.extend r (screened_row.fields
                 (map_option ps_screening_encounter_id s)
                 (case s of None \<Rightarrow> None | Some p \<Rightarrow> ps_screening_date p)
                 (case s of None \<Rightarrow> None | Some p \<Rightarrow> ps_screening_score p)))
       pop (CDF_CH_prep_screenings_for_merge scr)"

definition CDF_CH_determine_screenings_results :: "screened_row list \<Rightarrow> judged_row list" where
  \<comment> \<open>\<^verbatim>\<open>populace['positive_screening'] = populace['screening_score'] > 9\<close>\<close>
  "CDF_CH_determine_screenings_results pop =
     map (\<lambda>r. screened_row.extend r (judged_row.fields
            (case ch_screening_score r of None \<Rightarrow> False | Some s \<Rightarrow> s > 9))) pop"

definition CDF_CH_set_negative_numerators :: "judged_row list \<Rightarrow> numerator_row list" where
  "CDF_CH_set_negative_numerators negative_screenings =
     map (\<lambda>r. judged_row.extend r (numerator_row.fields None True (Some ''Negative screening'')))
       negative_screenings"

definition CDF_CH_find_follow_ups :: "judged_row list \<Rightarrow> (int \<times> timestamp) list" where
  \<comment> \<open>\<^verbatim>\<open>populace.groupby('PatientId')['VisitDateTime'].max()\<close>\<close>
  "CDF_CH_find_follow_ups pop =
     concat (map (\<lambda>(p, rows). case rows of [] \<Rightarrow> []
                    | r # rs \<Rightarrow> [(p, fold max (map enc_VisitDateTime rs) (enc_VisitDateTime r))])
               (groupby enc_PatientId pop))"

definition CDF_CH_set_positive_numerators ::
  "judged_row list \<Rightarrow> judged_row list \<Rightarrow> numerator_row list" where
  \<comment> \<open>the first argument is \<^verbatim>\<open>self.__populace__\<close>, the second the positive screenings:
      \<^verbatim>\<open>numerator = (last_encounter > screening_date) & last_encounter.notna()\<close>, the rows
      that meet it first, with their description\<close>
  "CDF_CH_set_positive_numerators pop positive_screenings =
     (let merged = merge_left enc_PatientId fst (\<lambda>r f. (r, map_option snd f))
                     positive_screenings (CDF_CH_find_follow_ups pop);
          met = (\<lambda>(r, l). case l of None \<Rightarrow> False
                   | Some e \<Rightarrow> (case ch_screening_date r of None \<Rightarrow> False | Some s \<Rightarrow> e > s))
      in map (\<lambda>(r, l). judged_row.extend r (numerator_row.fields l True
                 (Some ''Positive screening with follow up''))) (filter met merged)
         @ map (\<lambda>(r, l). judged_row.extend r (numerator_row.fields l False None))
             (filter (\<lambda>p. \<not> met p) merged))"

definition CDF_CH_find_performance_met :: "aged_row list \<Rightarrow> screening list \<Rightarrow> numerator_row list" where
  \<comment> \<open>\<^verbatim>\<open>pd.concat([positive_screenings, negative_screenings])\<close>\<close>
  "CDF_CH_find_performance_met pop scr =
     (let populace = CDF_CH_determine_screenings_results (CDF_CH_add_screenings_to_populace pop scr)
      in CDF_CH_set_positive_numerators populace (filter ch_positive_screening populace)
         @ CDF_CH_set_negative_numerators (filter (\<lambda>r. \<not> ch_positive_screening r) populace))"

definition CDF_CH_trim_unnecessary_populace_data :: "numerator_row list \<Rightarrow> cdf_ch_cohort list" where
  \<comment> \<open>the seven columns, then \<^verbatim>\<open>drop_duplicates(subset='patient_measurement_year_id')\<close>\<close>
  "CDF_CH_trim_unnecessary_populace_data pop =
     drop_duplicates co_patient_measurement_year_id
       (map (\<lambda>r. \<lparr>co_patient_measurement_year_id = enc_patient_measurement_year_id r,
                   co_PatientId = enc_PatientId r,
                   co_EncounterId = enc_EncounterId r,
                   co_screening_encounter_id = ch_screening_encounter_id r,
                   co_last_encounter = ch_last_encounter r,
                   co_numerator = ch_numerator r,
                   co_numerator_desc = ch_numerator_desc r\<rparr>) pop)"

definition CDF_CH_cohort :: "cdf_ch_db \<Rightarrow> cdf_ch_cohort list" where
  \<comment> \<open>the cohort table of \<^verbatim>\<open>collect_measurement_data\<close>: get_denominator, get_numerator
      (\<^verbatim>\<open>_apply_time_constraint\<close> is \<^verbatim>\<open>pass\<close>), and the populace half of return_final_data\<close>
  "CDF_CH_cohort db =
     CDF_CH_trim_unnecessary_populace_data
       (CDF_CH_find_performance_met (CDF_CH_get_denominator db) (db_screenings db))"

section \<open>SDOH (SDOH.py): the age exclusion\<close>

definition SDOH_calculate_age :: "populace_row list \<Rightarrow> aged_row list" where
  "SDOH_calculate_age pop =
     map (\<lambda>r. populace_row.extend r (aged_row.fields
            (calculate_age_days (enc_VisitDateTime r) (enc_DOB r)))) pop"

definition SDOH_filter_age :: "aged_row list \<Rightarrow> aged_row list" where
  \<comment> \<open>\<^verbatim>\<open>populace[populace['age'] >= 18]\<close>\<close>
  "SDOH_filter_age pop =
     filter (\<lambda>r. case enc_age r of None \<Rightarrow> False | Some a \<Rightarrow> a \<ge> 18) pop"

section \<open>ASC (ASC.py, class \<^verbatim>\<open>_Sub_1\<close>): the denominator populace\<close>

text \<open>
  The \<^verbatim>\<open>Age\<close> column is computed by the query (\<^verbatim>\<open>DATEDIFF(year, DOB, VisitDateTime)\<close>) and
  is missing where the patient has no date of birth. What pandas raises is a value of
  \<open>py_error\<close>.
\<close>

datatype py_error = TypeError | ValueError | KeyError | AttributeError

record asc_encounter =
  asc_PatientId :: int
  asc_Age :: "int option"
  asc_EncounterID :: int
  asc_encounter_date :: timestamp
  asc_measurement_year :: int

record asc_populace_row = asc_encounter +
  asc_patient_measurement_year_id :: string

definition ASC_create_patient_measurement_year_id :: "asc_encounter list \<Rightarrow> asc_populace_row list" where
  "ASC_create_patient_measurement_year_id encs =
     map (\<lambda>e. asc_encounter.extend e (asc_populace_row.fields
            (create_measurement_year_id (asc_PatientId e) (asc_measurement_year e)))) encs"

definition ASC_number_of_visits_filter :: "asc_populace_row list \<Rightarrow> asc_populace_row list" where
  \<comment> \<open>\<^verbatim>\<open>(populace.groupby(id)['PatientId'].size() >= 2).reset_index()[id].to_list()\<close>:
      the group sizes, compared with 2, give a table of (id, bool) rows, one per group;
      the list is that table's id column, whatever the bool. The populace is then
      \<^verbatim>\<open>populace[populace[id].isin(multiple_visits)]\<close>\<close>
  "ASC_number_of_visits_filter populace =
     (let size = map (\<lambda>(k, rows). (k, int (length rows)))
                   (groupby asc_patient_measurement_year_id populace);
          reset_index = map (\<lambda>(k, n). (k, n \<ge> 2)) size;
          multiple_visits = map fst reset_index
      in filter (\<lambda>r. asc_patient_measurement_year_id r \<in> set multiple_visits) populace)"

definition ASC_get_two_or_more_visits :: "asc_encounter list \<Rightarrow> asc_populace_row list" where
  "ASC_get_two_or_more_visits all_encounters =
     ASC_number_of_visits_filter (ASC_create_patient_measurement_year_id all_encounters)"

definition pd_concat_positional ::
  "asc_populace_row list \<Rightarrow> asc_populace_row list \<Rightarrow> py_error + asc_populace_row list" where
  \<comment> \<open>\<^verbatim>\<open>pd.concat(a, b)\<close> with two DataFrames as positional arguments: the first argument
      must be a list of frames and the second is the axis, so pandas raises a TypeError
      whatever the frames hold\<close>
  "pd_concat_positional a b = Inl TypeError"

definition ASC_add_preventive_visits_to_populace ::
  "asc_populace_row list \<Rightarrow> asc_populace_row list \<Rightarrow> py_error + asc_populace_row list" where
  \<comment> \<open>\<^verbatim>\<open>self.__populace__ = pd.concat(self.__populace__, preventive_visits)\<close>\<close>
  "ASC_add_preventive_visits_to_populace populace preventive_visits =
     pd_concat_positional populace preventive_visits"

definition ASC_get_preventive_visits ::
  "asc_populace_row list \<Rightarrow> asc_encounter list \<Rightarrow> py_error + asc_populace_row list" where
  \<comment> \<open>returns early, the populace unchanged, when the query finds no preventive visit\<close>
  "ASC_get_preventive_visits populace preventive_visits =
     (if preventive_visits = [] then Inr populace
      else ASC_add_preventive_visits_to_populace populace
             (ASC_create_patient_measurement_year_id preventive_visits))"

definition ASC_get_populace ::
  "asc_encounter list \<Rightarrow> asc_encounter list \<Rightarrow> py_error + asc_populace_row list" where
  \<comment> \<open>\<^verbatim>\<open>_get_populace\<close>: the first argument is the result of the query of
      \<^verbatim>\<open>__get_all_encounters\<close>, the second that of \<^verbatim>\<open>__get_preventive_visits_from_db\<close>
      (the encounters whose CPT code is on the preventive list)\<close>
  "ASC_get_populace all_encounters preventive_visits =
     ASC_get_preventive_visits (ASC_get_two_or_more_visits all_encounters) preventive_visits"

definition ASC_remove_age_exclusions :: "asc_populace_row list \<Rightarrow> asc_populace_row list" where
  \<comment> \<open>\<^verbatim>\<open>populace[populace['Age'] >= 18]\<close>\<close>
  "ASC_remove_age_exclusions populace =
     filter (\<lambda>r. case asc_Age r of None \<Rightarrow> False | Some a \<Rightarrow> a \<ge> 18) populace"

section \<open>I-SERV (I_SERV.py, class \<^verbatim>\<open>_Sub_1\<close>): age exclusion and numerator\<close>

text \<open>
  A row of the populace after \<^verbatim>\<open>_get_populace\<close>: a call (first contact), the initial
  evaluation matched to it (missing when there is none), the year of the call.
\<close>

record iserv_row =
  is_PatientID :: int
  is_CallID :: int
  is_StartDate :: timestamp
  is_DOB :: "timestamp option"
  is_eval_date :: "timestamp option"
  is_eval_encounter_id :: "int option"
  is_measurement_year :: int
  is_patient_measurement_year_id :: string

record iserv_aged_row = iserv_row +
  is_age :: "int option"

record iserv_numerator_row = iserv_aged_row +
  is_business_days_from_call_to_eval :: int

definition I_SERV_calculate_age :: "iserv_row list \<Rightarrow> iserv_aged_row list" where
  \<comment> \<open>\<^verbatim>\<open>populace['age'] = populace['measurement_year'] - populace['DOB'].dt.year\<close>\<close>
  "I_SERV_calculate_age populace =
     map (\<lambda>r. iserv_row.extend r (iserv_aged_row.fields
            (case is_DOB r of None \<Rightarrow> None
             | Some b \<Rightarrow> Some (is_measurement_year r - year_of b)))) populace"

definition I_SERV_remove_age :: "iserv_aged_row list \<Rightarrow> iserv_aged_row list" where
  \<comment> \<open>\<^verbatim>\<open>populace[populace['age'] >= 12]\<close>\<close>
  "I_SERV_remove_age populace =
     filter (\<lambda>r. case is_age r of None \<Rightarrow> False | Some a \<Rightarrow> a \<ge> 12) populace"

definition I_SERV_age_exclusions :: "iserv_row list \<Rightarrow> iserv_aged_row list" where
  "I_SERV_age_exclusions populace = I_SERV_remove_age (I_SERV_calculate_age populace)"

definition BusinessDay_adjust_ndays :: "int \<Rightarrow> int \<Rightarrow> int \<Rightarrow> int" where
  \<comment> \<open>\<^verbatim>\<open>BusinessDay._adjust_ndays(wday, weeks)\<close> of pandas for the offset \<^verbatim>\<open>BDay(n0)\<close>\<close>
  "BusinessDay_adjust_ndays n0 wday weeks =
     (let n1 = (if n0 \<le> 0 \<and> wday > 4 then n0 + 1 else n0);
          n = n1 - 5 * weeks
      in if n = 0 \<and> wday > 4 then 4 - wday
         else if wday > 4 then (7 - wday) + (n - 1)
         else if wday + n \<le> 4 then n
         else n + 2)"

definition BDay :: "int \<Rightarrow> timestamp \<Rightarrow> timestamp" where
  \<comment> \<open>\<^verbatim>\<open>ts + pd.tseries.offsets.BDay(n)\<close> (\<^verbatim>\<open>BusinessDay._apply\<close>): whole weeks first,
      then the remaining days past the weekend; the time of day is kept\<close>
  "BDay n other =
     (let wday = weekday (date_of other);
          weeks = n div 5;
          days = BusinessDay_adjust_ndays n wday weeks
      in add_days other (7 * weeks + days))"

definition bdate_range :: "timestamp \<Rightarrow> timestamp \<Rightarrow> int list" where
  \<comment> \<open>\<^verbatim>\<open>pd.bdate_range(start, end)\<close>: the days from Monday to Friday between the two
      (normalized) days, both included\<close>
  "bdate_range start end = filter (\<lambda>d. weekday d < 5) [date_of start..date_of end]"

definition I_SERV_apply_time_constraint :: "iserv_aged_row list \<Rightarrow> py_error + iserv_aged_row list" where
  \<comment> \<open>\<^verbatim>\<open>populace['eval_date'] = populace.apply(lambda row: ..., axis=1)\<close> with
      \<^verbatim>\<open>row['eval_date'] if row['eval_date'].year == row['measurement_year']
        else row['eval_date'] + pd.tseries.offsets.BDay(31)\<close>; NaT stays NaT. On a
      populace with no row, \<^verbatim>\<open>apply\<close> returns the (empty) frame, not a column, and the
      assignment raises a ValueError\<close>
  "I_SERV_apply_time_constraint populace =
     (if populace = [] then Inl ValueError
      else Inr (map (\<lambda>row. row\<lparr>is_eval_date :=
                  (case is_eval_date row of None \<Rightarrow> None
                   | Some e \<Rightarrow> if year_of e = is_measurement_year row then Some e
                               else Some (BDay 31 e))\<rparr>) populace))"

definition I_SERV_filter_calls_without_evals ::
  "iserv_aged_row list \<Rightarrow> iserv_aged_row list \<times> iserv_aged_row list" where
  \<comment> \<open>(the calls with no evaluation, the populace without them)\<close>
  "I_SERV_filter_calls_without_evals populace =
     (filter (\<lambda>r. is_eval_date r = None) populace, filter (\<lambda>r. is_eval_date r \<noteq> None) populace)"

definition I_SERV_calculate_days_from_call :: "iserv_aged_row \<Rightarrow> int" where
  \<comment> \<open>\<^verbatim>\<open>len(pd.bdate_range(row['StartDate'], row['eval_date'])) - 1\<close>, for a row with an
      evaluation date\<close>
  "I_SERV_calculate_days_from_call row =
     (case is_eval_date row of None \<Rightarrow> - 1
      | Some e \<Rightarrow> int (length (bdate_range (is_StartDate row) e)) - 1)"

definition I_SERV_find_performance_met ::
  "iserv_aged_row list \<Rightarrow> py_error + (int \<times> timestamp) list \<times> iserv_numerator_row list" where
  \<comment> \<open>(\<^verbatim>\<open>self.__EXCLUSIONS__\<close>: PatientID and StartDate of the calls with no evaluation,
      the populace with its numerator column). The column is assigned from
      \<^verbatim>\<open>populace.apply(lambda row: ..., axis=1)\<close>: when no call with an evaluation is
      left, \<^verbatim>\<open>apply\<close> returns the empty frame and the assignment raises a ValueError\<close>
  "I_SERV_find_performance_met populace =
     (let (calls, rest) = I_SERV_filter_calls_without_evals populace
      in if rest = [] then Inl ValueError
         else Inr (map (\<lambda>r. (is_PatientID r, is_StartDate r)) calls,
                   map (\<lambda>r. iserv_aged_row.extend r (iserv_numerator_row.fields
                          (I_SERV_calculate_days_from_call r))) rest))"

definition I_SERV_get_numerator ::
  "iserv_aged_row list \<Rightarrow> py_error + (int \<times> timestamp) list \<times> iserv_numerator_row list" where
  \<comment> \<open>\<^verbatim>\<open>_apply_time_constraint\<close>, then \<^verbatim>\<open>_find_performance_met\<close>\<close>
  "I_SERV_get_numerator populace =
     (case I_SERV_apply_time_constraint populace of
        Inl e \<Rightarrow> Inl e
      | Inr constrained \<Rightarrow> I_SERV_find_performance_met constrained)"

section \<open>DEP-REM (DEP_REM.py, class \<^verbatim>\<open>_Sub_1\<close>)\<close>

text \<open>
  The inputs are the tables the four queries return and the clock: the PHQ-9 results with
  their encounter (the query keeps the rows whose visit time is known), the exclusion
  diagnoses with their dates, the patients' ethnicity and race, and the insurance plans.
  The queries themselves are taken to succeed.
\<close>

record visit =
  PatientId :: int
  DOB :: "timestamp option"
  EncounterID :: int
  Date :: timestamp
  Score :: "int option"

record index_visit =
  ix_PatientId :: int
  ix_patient_measurement_year_id :: string
  ix_EncounterID :: int
  ix_measurement_year :: int
  ix_Date :: timestamp

record exclusion_range = index_visit +
  ix_end_exclusion_range :: int

record grouped_visit = visit +
  patient_measurement_year_id :: string
  index_encounter_id :: int

record scored_visit = grouped_visit +
  numerator :: bool

record exclusion =
  ex_PatientId :: int
  ex_Date :: "int option"

record patient_detail =
  pd_PatientId :: int
  pd_Ethnicity :: "string option"
  pd_Race :: "string option"

record payer =
  py_PatientId :: int
  py_Start :: "timestamp option"
  py_End :: "timestamp option"
  py_Plan :: "string option"

record stratify_row =
  st_patient_measurement_year_id :: string
  st_PatientId :: int
  st_DOB :: "timestamp option"
  st_index_encounter_id :: int
  st_Date :: timestamp

record stratify_aged = stratify_row +
  st_Age :: string

record stratify_patient = stratify_aged +
  st_Ethnicity :: "string option"
  st_Race :: "string option"

record stratify_medicaid = stratify_patient +
  st_Medicaid :: bool

record cohort_row =
  c_PatientId :: int
  c_patient_measurement_year_id :: string
  c_index_encounter_id :: int
  c_numerator :: bool

record stratify_out =
  so_patient_measurement_year_id :: string
  so_Age :: string
  so_Ethnicity :: string
  so_Race :: string
  so_Medicaid :: bool

record dep_rem_db =
  dr_phq :: "visit list"
  dr_exclusions :: "exclusion list"
  dr_patient_details :: "patient_detail list"
  dr_payers :: "payer list"
  dr_now :: timestamp

subsection \<open>The denominator\<close>

definition DEP_REM_initilize_populace :: "visit list \<Rightarrow> visit list" where
  \<comment> \<open>\<^verbatim>\<open>pd.read_sql(sql, conn).sort_values(['PatientId','Date'])\<close>\<close>
  "DEP_REM_initilize_populace phq = sort_values PatientId (sort_values Date phq)"

definition DEP_REM_get_index_visits :: "visit list \<Rightarrow> index_visit list" where
  \<comment> \<open>the visits with a score above 9, their year and id, sorted by date, the first of
      every id kept\<close>
  "DEP_REM_get_index_visits populace =
     drop_duplicates ix_patient_measurement_year_id
       (sort_values ix_Date
         (map (\<lambda>v. \<lparr>ix_PatientId = PatientId v,
                     ix_patient_measurement_year_id =
                       create_measurement_year_id (PatientId v) (year_of (Date v)),
                     ix_EncounterID = EncounterID v,
                     ix_measurement_year = year_of (Date v),
                     ix_Date = Date v\<rparr>)
            (filter (\<lambda>v. case Score v of None \<Rightarrow> False | Some s \<Rightarrow> s > 9) populace)))"

definition DEP_REM_create_patient_measurement_year_id ::
  "visit \<Rightarrow> index_visit list \<Rightarrow> (string \<times> int) option" where
  \<comment> \<open>\<open>None\<close> is the source's \<^verbatim>\<open>'No Group'\<close>. \<^verbatim>\<open>ind_group\<close> is the patient's group of
      \<^verbatim>\<open>index_visits.groupby('PatientId')\<close>, \<^verbatim>\<open>index_mask\<close> compares the dates (not the
      times), \<^verbatim>\<open>iloc[-1]\<close> is the last row that passes\<close>
  "DEP_REM_create_patient_measurement_year_id visit index_visits =
     (let pid = PatientId visit;
          ind_group = filter (\<lambda>i. ix_PatientId i = pid) index_visits
      in if ind_group = [] then None
         else let visit_date = date_of (Date visit);
                  masked = filter (\<lambda>i. visit_date \<ge> date_of (ix_Date i)) ind_group
              in if length masked \<ge> 1
                 then Some (str_int pid @ ''-'' @ str_int (year_of (ix_Date (last masked))),
                            ix_EncounterID (last masked))
                 else None)"

definition DEP_REM_set_index_groups ::
  "visit list \<Rightarrow> index_visit list \<Rightarrow> py_error + grouped_visit list" where
  \<comment> \<open>\<^verbatim>\<open>populace[[id, index_encounter_id]] = populace.apply(...)\<close>, then the rows with
      \<^verbatim>\<open>'No Group'\<close> removed. When every row (or none at all) gives \<^verbatim>\<open>'No Group'\<close>, the
      frame that \<^verbatim>\<open>apply\<close> returns has not two columns, and the assignment raises
      \<^verbatim>\<open>ValueError: Columns must be same length as key\<close>\<close>
  "DEP_REM_set_index_groups populace index_visits =
     (let applied = map (\<lambda>v. (v, DEP_REM_create_patient_measurement_year_id v index_visits))
                      populace
      in if list_all (\<lambda>p. snd p = None) applied then Inl ValueError
         else Inr (concat (map (\<lambda>(v, g). case g of None \<Rightarrow> []
                     | Some (uid, enc) \<Rightarrow> [visit.extend v (grouped_visit.fields uid enc)])
                   applied)))"

definition DEP_REM_determine_exclusion_date_range :: "index_visit list \<Rightarrow> exclusion_range list" where
  \<comment> \<open>the date of \<^verbatim>\<open>Date + pd.DateOffset(months=6) + pd.DateOffset(days=60)\<close>\<close>
  "DEP_REM_determine_exclusion_date_range index_visits =
     map (\<lambda>i. index_visit.extend i (exclusion_range.fields
            (date_of (add_days (add_months (ix_Date i) 6) 60)))) index_visits"

definition DEP_REM_compare_exclusions_with_range ::
  "exclusion list \<Rightarrow> exclusion_range list \<Rightarrow> int list" where
  \<comment> \<open>\<^verbatim>\<open>exclusions.merge(ranges, how='left', on='PatientId')\<close>; an exclusion is valid
      when its date is not after the end of the range (False when either is missing);
      the index visits' encounter ids of the valid rows, without duplicates\<close>
  "DEP_REM_compare_exclusions_with_range exclusions ranges =
     (let merged = merge_left ex_PatientId ix_PatientId (\<lambda>e r. (e, r)) exclusions ranges
      in drop_duplicates id
           (concat (map (\<lambda>(e, r). case (ex_Date e, r) of
                           (Some d, Some rg) \<Rightarrow>
                              if d \<le> ix_end_exclusion_range rg then [ix_EncounterID rg] else []
                         | _ \<Rightarrow> []) merged)))"

definition DEP_REM_filter_out_exclusions :: "grouped_visit list \<Rightarrow> int list \<Rightarrow> grouped_visit list" where
  "DEP_REM_filter_out_exclusions populace exclusions =
     filter (\<lambda>r. index_encounter_id r \<notin> set exclusions) populace"

definition DEP_REM_remove_exclusions ::
  "grouped_visit list \<Rightarrow> index_visit list \<Rightarrow> exclusion list \<Rightarrow> grouped_visit list" where
  \<comment> \<open>\<^verbatim>\<open>__get_all_exclusions\<close> ends in \<^verbatim>\<open>.drop_duplicates()\<close>\<close>
  "DEP_REM_remove_exclusions populace index_visits exclusions =
     DEP_REM_filter_out_exclusions populace
       (DEP_REM_compare_exclusions_with_range (drop_duplicates id exclusions)
          (DEP_REM_determine_exclusion_date_range index_visits))"

definition DEP_REM_get_denominator :: "dep_rem_db \<Rightarrow> py_error + grouped_visit list" where
  \<comment> \<open>\<^verbatim>\<open>_get_populace\<close> (\<^verbatim>\<open>__initilize_populace\<close>, \<^verbatim>\<open>__get_index_visits\<close>,
      \<^verbatim>\<open>__set_index_groups\<close>), then \<^verbatim>\<open>_remove_exclusions\<close>\<close>
  "DEP_REM_get_denominator db =
     (let populace = DEP_REM_initilize_populace (dr_phq db);
          index_visits = DEP_REM_get_index_visits populace
      in case DEP_REM_set_index_groups populace index_visits of
           Inl e \<Rightarrow> Inl e
         | Inr grouped \<Rightarrow> Inr (DEP_REM_remove_exclusions grouped index_visits (dr_exclusions db)))"

subsection \<open>The numerator\<close>

definition DEP_REM_apply_time_constraint :: "grouped_visit list \<Rightarrow> grouped_visit list" where
  \<comment> \<open>for every group of \<^verbatim>\<open>populace.groupby('patient_measurement_year_id')\<close>:
      \<^verbatim>\<open>index_visit = patient_data.iloc[0]\<close>, the window around its date plus six months,
      and the result gets the index visit, then the group's visits within the window\<close>
  "DEP_REM_apply_time_constraint populace =
     concat (map (\<lambda>(name, patient_data). case patient_data of [] \<Rightarrow> []
                  | index_visit # rest \<Rightarrow>
                      (let enc_date = Date index_visit;
                           min_range = add_days (add_months enc_date 6) (- 60);
                           max_range = add_days (add_months enc_date 6) 60
                       in index_visit #
                          filter (\<lambda>r. Date r \<ge> min_range \<and> Date r \<le> max_range) patient_data))
               (groupby patient_measurement_year_id populace))"

definition DEP_REM_check_numerator_condition :: "grouped_visit list \<Rightarrow> string list" where
  \<comment> \<open>the ids of the groups with \<^verbatim>\<open>True in (index_group['Score'] < 5).to_list()\<close>\<close>
  "DEP_REM_check_numerator_condition populace =
     map fst (filter (\<lambda>(name, index_group).
                 True \<in> set (map (\<lambda>r. case Score r of None \<Rightarrow> False | Some s \<Rightarrow> s < 5)
                                index_group))
               (groupby patient_measurement_year_id populace))"

definition DEP_REM_set_numerator :: "grouped_visit list \<Rightarrow> string list \<Rightarrow> scored_visit list" where
  "DEP_REM_set_numerator populace numerator_ids =
     map (\<lambda>r. grouped_visit.extend r (scored_visit.fields
            (patient_measurement_year_id r \<in> set numerator_ids))) populace"

definition DEP_REM_find_performance_met :: "grouped_visit list \<Rightarrow> py_error + scored_visit list" where
  \<comment> \<open>an empty populace is \<^verbatim>\<open>pd.DataFrame()\<close>, which has no id column to group by:
      \<^verbatim>\<open>groupby\<close> raises a KeyError\<close>
  "DEP_REM_find_performance_met populace =
     (if populace = [] then Inl KeyError
      else Inr (DEP_REM_set_numerator populace (DEP_REM_check_numerator_condition populace)))"

definition DEP_REM_get_numerator :: "grouped_visit list \<Rightarrow> py_error + scored_visit list" where
  \<comment> \<open>\<^verbatim>\<open>_apply_time_constraint\<close>, then \<^verbatim>\<open>_find_performance_met\<close>\<close>
  "DEP_REM_get_numerator populace =
     DEP_REM_find_performance_met (DEP_REM_apply_time_constraint populace)"

subsection \<open>The stratification\<close>

definition DEP_REM_initialize_stratify :: "scored_visit list \<Rightarrow> stratify_row list" where
  \<comment> \<open>five columns of the populace,
      \<^verbatim>\<open>sort_values(['index_encounter_id','Date']).drop_duplicates('index_encounter_id')\<close>\<close>
  "DEP_REM_initialize_stratify populace =
     drop_duplicates st_index_encounter_id
       (sort_values st_index_encounter_id
         (sort_values st_Date
           (map (\<lambda>r. \<lparr>st_patient_measurement_year_id = patient_measurement_year_id r,
                       st_PatientId = PatientId r,
                       st_DOB = DOB r,
                       st_index_encounter_id = index_encounter_id r,
                       st_Date = Date r\<rparr>) populace)))"

definition DEP_REM_calculate_age :: "stratify_row list \<Rightarrow> py_error + stratify_aged list" where
  \<comment> \<open>the age \<^verbatim>\<open>val.days // 365.25\<close> of \<^verbatim>\<open>Date - DOB\<close>, the rows with an age of at
      least 12, and the age replaced by its group. \<^verbatim>\<open>_apply_time_constraint\<close> has
      rebuilt the populace row by row (\<^verbatim>\<open>to_frame().T\<close>, \<^verbatim>\<open>pd.concat\<close>), which leaves a
      missing DOB as a float NaN in a column of objects: for a row with no DOB the
      difference is a float, and \<^verbatim>\<open>val.days\<close> raises an AttributeError\<close>
  "DEP_REM_calculate_age stratify =
     (if list_ex (\<lambda>r. st_DOB r = None) stratify then Inl AttributeError
      else (let aged = map (\<lambda>r. (r, calculate_age_days (st_Date r) (st_DOB r))) stratify;
                kept = filter (\<lambda>(r, a). case a of None \<Rightarrow> False | Some n \<Rightarrow> n \<ge> 12) aged
            in Inr (map (\<lambda>(r, a). stratify_row.extend r (stratify_aged.fields
                      (case a of None \<Rightarrow> ''12-18''
                       | Some age \<Rightarrow> if age \<ge> 18 then ''18+'' else ''12-18''))) kept)))"

definition DEP_REM_get_patient_data ::
  "stratify_aged list \<Rightarrow> patient_detail list \<Rightarrow> stratify_patient list" where
  \<comment> \<open>\<^verbatim>\<open>read_sql(...).drop_duplicates('PatientId', keep='last')\<close>, then
      \<^verbatim>\<open>stratify.merge(patient_data)\<close>: an inner merge on PatientId\<close>
  "DEP_REM_get_patient_data stratify patient_details =
     merge_inner st_PatientId pd_PatientId
       (\<lambda>r p. stratify_aged.extend r (stratify_patient.fields (pd_Ethnicity p) (pd_Race p)))
       stratify (drop_duplicates_last pd_PatientId patient_details)"

definition DEP_REM_merge_mediciad_with_stratify ::
  "payer list \<Rightarrow> stratify_patient list \<Rightarrow> (payer \<times> timestamp) list" where
  \<comment> \<open>\<^verbatim>\<open>medicaid_data.merge(stratify[['PatientId','Date']])\<close>: inner, on PatientId; a row
      is a plan with the Date of a stratify row of its patient\<close>
  "DEP_REM_merge_mediciad_with_stratify medicaid_data stratify =
     merge_inner py_PatientId st_PatientId (\<lambda>p r. (p, st_Date r)) medicaid_data stratify"

definition DEP_REM_filter_insurance_dates ::
  "timestamp \<Rightarrow> (payer \<times> timestamp) list \<Rightarrow> (payer \<times> timestamp) list" where
  \<comment> \<open>\<^verbatim>\<open>End.fillna(datetime.now())\<close>, then \<^verbatim>\<open>(Start <= Date) & (End >= Date)\<close>\<close>
  "DEP_REM_filter_insurance_dates now medicaid_data =
     filter (\<lambda>(p, d). (case py_Start p of None \<Rightarrow> False | Some s \<Rightarrow> s \<le> d)
                      \<and> (case py_End p of None \<Rightarrow> now | Some e \<Rightarrow> e) \<ge> d) medicaid_data"

definition DEP_REM_find_plans_with_medicaid :: "string option \<Rightarrow> bool option" where
  \<comment> \<open>\<^verbatim>\<open>plan.str.contains('medicaid')\<close> of one entry\<close>
  "DEP_REM_find_plans_with_medicaid plan = map_option (str_contains ''medicaid'') plan"

definition DEP_REM_replace_medicaid_values :: "bool option \<Rightarrow> int option" where
  \<comment> \<open>\<^verbatim>\<open>col.map({True:1,False:2})\<close> of one entry\<close>
  "DEP_REM_replace_medicaid_values v = map_option (\<lambda>b. if b then 1 else 2) v"

definition DEP_REM_find_patients_with_only_medicaids ::
  "(payer \<times> timestamp \<times> int option) list \<Rightarrow> stratify_patient list \<Rightarrow> (int \<times> bool) list" where
  \<comment> \<open>\<^verbatim>\<open>medicaid_data.merge(stratify[['PatientId','Date','index_encounter_id']],
      on=['PatientId','Date'])\<close>, then
      \<^verbatim>\<open>(groupby(['index_encounter_id'])['Medicaid'].sum() == 1).reset_index()\<close>; the sum
      skips the missing values\<close>
  "DEP_REM_find_patients_with_only_medicaids medicaid_data stratify =
     (let merged = merge_inner (\<lambda>(p, d, m). (py_PatientId p, d)) (\<lambda>r. (st_PatientId r, st_Date r))
                     (\<lambda>(p, d, m) r. (st_index_encounter_id r, m)) medicaid_data stratify
      in map (\<lambda>(enc, rows).
                (enc, sum_list (map (\<lambda>(e, m). case m of None \<Rightarrow> 0 | Some n \<Rightarrow> n) rows) = 1))
           (groupby fst merged))"

definition DEP_REM_determine_medicaid_stratify ::
  "(payer \<times> timestamp) list \<Rightarrow> stratify_patient list \<Rightarrow> (int \<times> bool) list" where
  "DEP_REM_determine_medicaid_stratify medicaid_data stratify =
     DEP_REM_find_patients_with_only_medicaids
       (map (\<lambda>(p, d). (p, d,
               DEP_REM_replace_medicaid_values (DEP_REM_find_plans_with_medicaid (py_Plan p))))
          medicaid_data)
       stratify"

definition DEP_REM_get_encounter_data ::
  "stratify_patient list \<Rightarrow> payer list \<Rightarrow> timestamp \<Rightarrow> stratify_medicaid list" where
  \<comment> \<open>\<^verbatim>\<open>__get_encounter_data\<close>. The id that \<^verbatim>\<open>__recreate_patient_measurement_year_id\<close>
      adds to the plans is not a column of \<^verbatim>\<open>results\<close> and is left out. The last line
      is \<^verbatim>\<open>stratify.merge(results)\<close>: an inner merge on index_encounter_id\<close>
  "DEP_REM_get_encounter_data stratify payers now =
     (let medicaid_data = DEP_REM_merge_mediciad_with_stratify payers stratify;
          valid = DEP_REM_filter_insurance_dates now medicaid_data;
          results = DEP_REM_determine_medicaid_stratify valid stratify
      in merge_inner st_index_encounter_id fst
           (\<lambda>r res. stratify_patient.extend r (stratify_medicaid.fields (snd res)))
           stratify results)"

definition fillna_Unknown :: "string option \<Rightarrow> string" where
  \<comment> \<open>\<^verbatim>\<open>fillna('Unknown')\<close> of one entry of a column of strings\<close>
  "fillna_Unknown v = (case v of None \<Rightarrow> ''Unknown'' | Some s \<Rightarrow> s)"

definition DEP_REM_stratify_data ::
  "scored_visit list \<Rightarrow> dep_rem_db \<Rightarrow> py_error + stratify_out list" where
  \<comment> \<open>\<^verbatim>\<open>stratify_data\<close> (\<^verbatim>\<open>__initialize_stratify\<close>, \<^verbatim>\<open>__calculate_age\<close>,
      \<^verbatim>\<open>__get_stratify_from_db\<close>, \<^verbatim>\<open>__fill_blank_stratify\<close>) and the five columns that
      \<^verbatim>\<open>__trim_unnecessary_stratify_data\<close> keeps\<close>
  "DEP_REM_stratify_data populace db =
     (case DEP_REM_calculate_age (DEP_REM_initialize_stratify populace) of
        Inl e \<Rightarrow> Inl e
      | Inr aged \<Rightarrow>
          Inr (map (\<lambda>r. \<lparr>so_patient_measurement_year_id = st_patient_measurement_year_id r,
                           so_Age = st_Age r,
                           so_Ethnicity = fillna_Unknown (st_Ethnicity r),
                           so_Race = fillna_Unknown (st_Race r),
                           so_Medicaid = st_Medicaid r\<rparr>)
                 (DEP_REM_get_encounter_data
                    (DEP_REM_get_patient_data aged (dr_patient_details db))
                    (dr_payers db) (dr_now db))))"

definition DEP_REM_trim_unnecessary_populace_data :: "scored_visit list \<Rightarrow> cohort_row list" where
  \<comment> \<open>four columns, then \<^verbatim>\<open>drop_duplicates()\<close> of whole rows\<close>
  "DEP_REM_trim_unnecessary_populace_data populace =
     drop_duplicates id
       (map (\<lambda>r. \<lparr>c_PatientId = PatientId r,
                   c_patient_measurement_year_id = patient_measurement_year_id r,
                   c_index_encounter_id = index_encounter_id r,
                   c_numerator = numerator r\<rparr>) populace)"

definition DEP_REM_collect_measurement_data ::
  "dep_rem_db \<Rightarrow> py_error + (cohort_row list \<times> stratify_out list)" where
  \<comment> \<open>get_denominator, get_numerator, stratify_data, return_final_data\<close>
  "DEP_REM_collect_measurement_data db =
     (case DEP_REM_get_denominator db of
        Inl e \<Rightarrow> Inl e
      | Inr denominator \<Rightarrow>
          (case DEP_REM_get_numerator denominator of
             Inl e \<Rightarrow> Inl e
           | Inr populace \<Rightarrow>
               (case DEP_REM_stratify_data populace db of
                  Inl e \<Rightarrow> Inl e
                | Inr stratify \<Rightarrow>
                    Inr (DEP_REM_trim_unnecessary_populace_data populace, stratify))))"

section \<open>Concrete inputs\<close>

text \<open>
  A call on Monday 2024-11-25 whose initial evaluation is on Thursday 2025-01-02, after
  the measurement year of the call; and a call on Monday 2024-03-04 evaluated the next
  day.
\<close>

definition late_evaluation :: iserv_aged_row where
  "late_evaluation =
     \<lparr>is_PatientID = 7, is_CallID = 1, is_StartDate = Timestamp 2024 11 25 10 0,
      is_DOB = Some (Timestamp 1990 5 1 0 0),
      is_eval_date = Some (Timestamp 2025 1 2 14 0), is_eval_encounter_id = Some 55,
      is_measurement_year = 2024, is_patient_measurement_year_id = ''7-2024'',
      is_age = Some 34\<rparr>"

definition next_day_evaluation :: iserv_aged_row where
  "next_day_evaluation =
     \<lparr>is_PatientID = 8, is_CallID = 2, is_StartDate = Timestamp 2024 3 4 10 0,
      is_DOB = Some (Timestamp 1990 5 1 0 0),
      is_eval_date = Some (Timestamp 2024 3 5 9 0), is_eval_encounter_id = Some 56,
      is_measurement_year = 2024, is_patient_measurement_year_id = ''8-2024'',
      is_age = Some 34\<rparr>"

text \<open>An I-SERV caller born on 2012-12-31 who calls on 2024-01-02, eleven years old.\<close>

definition eleven_year_old_caller :: iserv_row where
  "eleven_year_old_caller =
     \<lparr>is_PatientID = 9, is_CallID = 3, is_StartDate = Timestamp 2024 1 2 10 0,
      is_DOB = Some (Timestamp 2012 12 31 0 0),
      is_eval_date = None, is_eval_encounter_id = None,
      is_measurement_year = 2024, is_patient_measurement_year_id = ''9-2024''\<rparr>"

text \<open>One ASC encounter of a patient with no other visit in the year.\<close>

definition single_visit :: asc_encounter where
  "single_visit =
     \<lparr>asc_PatientId = 1, asc_Age = Some 30, asc_EncounterID = 10,
      asc_encounter_date = Timestamp 2024 3 4 10 0, asc_measurement_year = 2024\<rparr>"

text \<open>
  DEP-REM, patient 1: two PHQ-9 results on 2024-01-15, a score of 3 at 09:00 and a score
  of 12 at 15:00, and nothing later. Patient 2: a score of 15 on 2024-02-01 and a score
  of 3 on 2024-08-05. Patient 1 has a Medicaid plan with no end date; patient 2 has no
  plan.
\<close>

definition same_day_db :: dep_rem_db where
  "same_day_db =
     \<lparr>dr_phq =
        [\<lparr>PatientId = 1, DOB = Some (Timestamp 1990 5 1 0 0), EncounterID = 10,
          Date = Timestamp 2024 1 15 9 0, Score = Some 3\<rparr>,
         \<lparr>PatientId = 1, DOB = Some (Timestamp 1990 5 1 0 0), EncounterID = 11,
          Date = Timestamp 2024 1 15 15 0, Score = Some 12\<rparr>,
         \<lparr>PatientId = 2, DOB = Some (Timestamp 1985 3 2 0 0), EncounterID = 20,
          Date = Timestamp 2024 2 1 10 0, Score = Some 15\<rparr>,
         \<lparr>PatientId = 2, DOB = Some (Timestamp 1985 3 2 0 0), EncounterID = 21,
          Date = Timestamp 2024 8 5 10 0, Score = Some 3\<rparr>],
      dr_exclusions = [],
      dr_patient_details =
        [\<lparr>pd_PatientId = 1, pd_Ethnicity = Some ''Not Hispanic'', pd_Race = None\<rparr>,
         \<lparr>pd_PatientId = 2, pd_Ethnicity = None, pd_Race = Some ''White''\<rparr>],
      dr_payers =
        [\<lparr>py_PatientId = 1, py_Start = Some (Timestamp 2023 1 1 0 0), py_End = None,
          py_Plan = Some ''ny medicaid''\<rparr>],
      dr_now = Timestamp 2025 6 1 12 0\<rparr>"

text \<open>
  DEP-REM, three adults with one index visit each in March 2024 and no later result.
  Patient 3 has a Medicaid plan that ended on 2023-12-31; patient 4 has a Medicaid plan
  and a commercial plan, both active; patient 5 has one active Medicaid plan.
\<close>

definition expired_plan_db :: dep_rem_db where
  "expired_plan_db =
     \<lparr>dr_phq =
        [\<lparr>PatientId = 3, DOB = Some (Timestamp 1980 1 1 0 0), EncounterID = 30,
          Date = Timestamp 2024 3 10 10 0, Score = Some 14\<rparr>,
         \<lparr>PatientId = 4, DOB = Some (Timestamp 1975 6 1 0 0), EncounterID = 40,
          Date = Timestamp 2024 3 11 10 0, Score = Some 11\<rparr>,
         \<lparr>PatientId = 5, DOB = Some (Timestamp 2008 6 1 0 0), EncounterID = 50,
          Date = Timestamp 2024 3 12 10 0, Score = Some 20\<rparr>],
      dr_exclusions = [],
      dr_patient_details =
        [\<lparr>pd_PatientId = 3, pd_Ethnicity = None, pd_Race = None\<rparr>,
         \<lparr>pd_PatientId = 4, pd_Ethnicity = None, pd_Race = None\<rparr>,
         \<lparr>pd_PatientId = 5, pd_Ethnicity = None, pd_Race = None\<rparr>],
      dr_payers =
        [\<lparr>py_PatientId = 3, py_Start = Some (Timestamp 2022 1 1 0 0),
          py_End = Some (Timestamp 2023 12 31 0 0), py_Plan = Some ''medicaid''\<rparr>,
         \<lparr>py_PatientId = 4, py_Start = Some (Timestamp 2022 1 1 0 0), py_End = None,
          py_Plan = Some ''medicaid managed care''\<rparr>,
         \<lparr>py_PatientId = 4, py_Start = Some (Timestamp 2023 1 1 0 0), py_End = None,
          py_Plan = Some ''aetna''\<rparr>,
         \<lparr>py_PatientId = 5, py_Start = Some (Timestamp 2022 1 1 0 0), py_End = None,
          py_Plan = Some ''medicaid''\<rparr>],
      dr_now = Timestamp 2025 6 1 12 0\<rparr>"

text \<open>
  CDF-CH: patient 60, fourteen years old at the visit of 2024-05-10, has no PHQ-A
  result; patient 61, fifteen, has one of 2024-04-02 with a score of 4.
\<close>

definition unscreened_db :: cdf_ch_db where
  "unscreened_db =
     \<lparr>db_encounters =
        [\<lparr>enc_PatientId = 60, enc_EncounterId = 600,
          enc_VisitDateTime = Timestamp 2024 5 10 10 0,
          enc_DOB = Some (Timestamp 2010 3 1 0 0)\<rparr>,
         \<lparr>enc_PatientId = 61, enc_EncounterId = 610,
          enc_VisitDateTime = Timestamp 2024 4 2 9 0,
          enc_DOB = Some (Timestamp 2009 1 1 0 0)\<rparr>],
      db_depressions = [],
      db_bipolars = [],
      db_screenings =
        [\<lparr>scr_PatientId = 61, scr_EncounterID = 610,
          scr_screening_date = Some (Timestamp 2024 4 2 9 0),
          scr_TotalScore = Some 4\<rparr>]\<rparr>"

definition unscreened_member :: aged_row where
  "unscreened_member =
     \<lparr>enc_PatientId = 60, enc_EncounterId = 600,
      enc_VisitDateTime = Timestamp 2024 5 10 10 0,
      enc_DOB = Some (Timestamp 2010 3 1 0 0),
      enc_patient_measurement_year_id = ''60-2024'',
      enc_age = Some 14\<rparr>"


text \<open>
  DEP-REM: the stratification of \<open>expired_plan_db\<close> before \<^verbatim>\<open>__get_encounter_data\<close>, one
  row for each of the three index encounters.
\<close>

definition expired_plan_stratify :: "stratify_patient list" where
  "expired_plan_stratify =
     [\<lparr>st_patient_measurement_year_id = ''3-2024'', st_PatientId = 3,
       st_DOB = Some (Timestamp 1980 1 1 0 0), st_index_encounter_id = 30,
       st_Date = Timestamp 2024 3 10 10 0, st_Age = ''18+'',
       st_Ethnicity = None, st_Race = None\<rparr>,
      \<lparr>st_patient_measurement_year_id = ''4-2024'', st_PatientId = 4,
       st_DOB = Some (Timestamp 1975 6 1 0 0), st_index_encounter_id = 40,
       st_Date = Timestamp 2024 3 11 10 0, st_Age = ''18+'',
       st_Ethnicity = None, st_Race = None\<rparr>,
      \<lparr>st_patient_measurement_year_id = ''5-2024'', st_PatientId = 5,
       st_DOB = Some (Timestamp 2008 6 1 0 0), st_index_encounter_id = 50,
       st_Date = Timestamp 2024 3 12 10 0, st_Age = ''12-18'',
       st_Ethnicity = None, st_Race = None\<rparr>]"
section \<open>Claims about the orchestrator\<close>

text \<open>
  C9, as stated: every sub-measure's computation is the fixed protocol. It fails: SDOH's
  \<^verbatim>\<open>get_numerator\<close> runs \<^verbatim>\<open>_find_performance_met\<close> before \<^verbatim>\<open>_apply_time_constraint\<close>.
\<close>

theorem C9_counterexample:
  "\<not> (\<forall>s. get_submeasure_data s = fixed_protocol)"
proof
  assume "\<forall>s. get_submeasure_data s = fixed_protocol"
  then have "get_submeasure_data SDOH_Sub_1 = fixed_protocol" by blast
  then show False
    by (simp add: collect_measurement_data_def fixed_protocol_def
        Submeasure_get_denominator_def stratify_data_def return_final_data_def)
qed

text \<open>
  C9, amended: the base class fixes the order get_denominator, get_numerator,
  stratify_data, return_final_data, with \<^verbatim>\<open>_get_populace\<close> then \<^verbatim>\<open>_remove_exclusions\<close>
  and \<^verbatim>\<open>_apply_time_constraint\<close> then \<^verbatim>\<open>_find_performance_met\<close>, once each; ASC
  sub-measure 1, CDF-CH, DEP-REM and I-SERV sub-measure 1 run exactly this; SDOH runs
  \<^verbatim>\<open>_find_performance_met\<close> before \<^verbatim>\<open>_apply_time_constraint\<close>; I-SERV sub-measure 2 is
  given its stratify table by \<^verbatim>\<open>_set_stratify\<close> in place of \<^verbatim>\<open>stratify_data\<close>; ASC
  sub-measure 2, driven through \<^verbatim>\<open>collect_measurement_data\<close>, runs get_denominator,
  get_numerator, stratify_data and return_final_data in the protocol's order, with
  \<^verbatim>\<open>_apply_time_constraint\<close> before \<^verbatim>\<open>_find_performance_met\<close> (the calls its
  \<^verbatim>\<open>get_denominator\<close> makes are listed as the code makes them).
\<close>

theorem C9_protocol_as_implemented:
  "get_submeasure_data ASC_Sub_1 = fixed_protocol
   \<and> get_submeasure_data CDF_CH_Sub_1 = fixed_protocol
   \<and> get_submeasure_data DEP_REM_Sub_1 = fixed_protocol
   \<and> get_submeasure_data I_SERV_Sub_1 = fixed_protocol
   \<and> get_submeasure_data SDOH_Sub_1 =
       [Get_denominator, Get_populace, Remove_exclusions,
        Get_numerator, Find_performance_met, Apply_time_constraint,
        Stratify_data, Return_final_data]
   \<and> get_submeasure_data I_SERV_Sub_2 =
       [Get_denominator, Get_populace, Remove_exclusions,
        Get_numerator, Apply_time_constraint, Find_performance_met,
        Set_stratify, Return_final_data]
   \<and> get_submeasure_data ASC_Sub_2 =
       [Get_denominator, Get_populace, Remove_exclusions, Get_populace,
        Get_numerator, Apply_time_constraint, Find_performance_met,
        Stratify_data, Return_final_data]"
  by (simp add: collect_measurement_data_def fixed_protocol_def
      Submeasure_get_denominator_def Submeasure_get_numerator_def
      stratify_data_def return_final_data_def)


section \<open>I-SERV: the numerator of a late evaluation\<close>

text \<open>
  C2 at a concrete input: the evaluation is in the year after the call, and the
  numerator is 59, the 28 business days that passed plus 31, not the fixed 31 of the
  claim. \<^verbatim>\<open>_apply_time_constraint\<close> adds 31 business days to the evaluation date, where
  its docstring says the evaluation counts as 31 days after first contact.
\<close>

theorem C2_late_evaluation_numerator:
  "(case I_SERV_get_numerator [late_evaluation] of
      Inl e \<Rightarrow> []
    | Inr (calls, populace) \<Rightarrow> map is_business_days_from_call_to_eval populace) = [59]"
  by code_simp

lemma I_SERV_elapsed_business_days_of_late_evaluation:
  "I_SERV_calculate_days_from_call late_evaluation = 28"
  by code_simp

lemma I_SERV_monday_call_tuesday_evaluation:
  "weekday (date_of (is_StartDate next_day_evaluation)) = 0
   \<and> (case I_SERV_get_numerator [next_day_evaluation] of
         Inl e \<Rightarrow> []
       | Inr (calls, populace) \<Rightarrow> map is_business_days_from_call_to_eval populace) = [1]"
  by code_simp

section \<open>ASC: the minimum-visit-count filter\<close>

text \<open>
  C7 at two concrete inputs. A patient with a single visit that is not preventive stays
  in the populace (the filter keeps every id), and when the query for preventive visits
  returns a row, \<^verbatim>\<open>_get_populace\<close> raises a TypeError.
\<close>

theorem C7_single_visit_kept_and_preventive_raises:
  "ASC_get_populace [single_visit] [] =
     Inr [\<lparr>asc_PatientId = 1, asc_Age = Some 30, asc_EncounterID = 10,
           asc_encounter_date = Timestamp 2024 3 4 10 0, asc_measurement_year = 2024,
           asc_patient_measurement_year_id = ''1-2024''\<rparr>]
   \<and> ASC_get_populace [single_visit] [single_visit] = Inl TypeError"
  by code_simp

section \<open>DEP-REM at concrete inputs\<close>

text \<open>
  C6 at a concrete input: patient 1's index visit (the score of 12 at 15:00) is the
  second row of its group, the row at 09:00 of the same day is taken for the index
  visit, and its score of 3 makes the numerator true, although the patient has no
  visit in the window around six months after the index date.
\<close>

theorem C6_numerator_true_without_visit_in_window:
  "map (\<lambda>i. (ix_PatientId i, ix_EncounterID i, ix_Date i))
       (DEP_REM_get_index_visits (DEP_REM_initilize_populace (dr_phq same_day_db)))
     = [(1, 11, Timestamp 2024 1 15 15 0), (2, 20, Timestamp 2024 2 1 10 0)]
   \<and> filter (\<lambda>v. PatientId v = 1
               \<and> add_days (add_months (Timestamp 2024 1 15 15 0) 6) (- 60) \<le> Date v
               \<and> Date v \<le> add_days (add_months (Timestamp 2024 1 15 15 0) 6) 60)
        (dr_phq same_day_db) = []
   \<and> (case DEP_REM_get_denominator same_day_db of
         Inl e \<Rightarrow> []
       | Inr denominator \<Rightarrow>
           (case DEP_REM_get_numerator denominator of
              Inl e \<Rightarrow> []
            | Inr populace \<Rightarrow>
                map (\<lambda>r. (patient_measurement_year_id r, EncounterID r, numerator r)) populace))
     = [(''1-2024'', 10, True), (''2-2024'', 20, True), (''2-2024'', 21, True)]"
  by code_simp

text \<open>
  C4 at a concrete input: patient 3 has no plan active at the index date (the only plan
  ended before it). The cohort table has the patient's row and the stratify table has
  none: no row with Unknown, none with False.
\<close>

theorem C4_record_without_active_plan_dropped:
  "DEP_REM_collect_measurement_data expired_plan_db =
     Inr ([\<lparr>c_PatientId = 3, c_patient_measurement_year_id = ''3-2024'',
             c_index_encounter_id = 30, c_numerator = False\<rparr>,
           \<lparr>c_PatientId = 4, c_patient_measurement_year_id = ''4-2024'',
             c_index_encounter_id = 40, c_numerator = False\<rparr>,
           \<lparr>c_PatientId = 5, c_patient_measurement_year_id = ''5-2024'',
             c_index_encounter_id = 50, c_numerator = False\<rparr>],
          [\<lparr>so_patient_measurement_year_id = ''4-2024'', so_Age = ''18+'',
             so_Ethnicity = ''Unknown'', so_Race = ''Unknown'', so_Medicaid = False\<rparr>,
           \<lparr>so_patient_measurement_year_id = ''5-2024'', so_Age = ''12-18'',
             so_Ethnicity = ''Unknown'', so_Race = ''Unknown'', so_Medicaid = True\<rparr>])"
  by code_simp

text \<open>
  C1 at a concrete input: both tables have one row per id, and the id of patient 2, who
  has no insurance plan, is in the cohort table and not in the stratify table.
\<close>

theorem C1_cohort_id_missing_from_stratify:
  "(case DEP_REM_collect_measurement_data same_day_db of
      Inl e \<Rightarrow> ([], [])
    | Inr (cohort, stratify) \<Rightarrow>
        (map c_patient_measurement_year_id cohort,
         map so_patient_measurement_year_id stratify))
   = ([''1-2024'', ''2-2024''], [''1-2024''])"
  by code_simp


section \<open>The measurement-year id identifies the patient and the year\<close>

lemma digit_char_not_minus: "digit_char d \<noteq> CHR ''-''"
  by (simp add: digit_char_def)

lemma digit_char_inj:
  assumes "0 \<le> a" "a < 10" "0 \<le> b" "b < 10" "digit_char a = digit_char b"
  shows "a = b"
proof -
  have a: "a = 0 \<or> a = 1 \<or> a = 2 \<or> a = 3 \<or> a = 4 \<or> a = 5 \<or> a = 6 \<or> a = 7 \<or> a = 8 \<or> a = 9"
    using assms(1,2) by arith
  have b: "b = 0 \<or> b = 1 \<or> b = 2 \<or> b = 3 \<or> b = 4 \<or> b = 5 \<or> b = 6 \<or> b = 7 \<or> b = 8 \<or> b = 9"
    using assms(3,4) by arith
  from a b assms(5) show ?thesis
    by (elim disjE) (simp_all add: digit_char_def)
qed

lemma str_digits_not_Nil: "str_digits n \<noteq> []"
  by (subst str_digits.simps) simp

lemma str_digits_no_minus: "CHR ''-'' \<notin> set (str_digits n)"
proof (induction n rule: str_digits.induct)
  case (1 n)
  show ?case
  proof (cases "n < 10")
    case True
    then show ?thesis
      by (subst str_digits.simps) (simp add: digit_char_not_minus [symmetric])
  next
    case False
    with 1 show ?thesis
      by (subst str_digits.simps) (simp add: digit_char_not_minus [symmetric])
  qed
qed

lemma str_digits_inj:
  "0 \<le> n \<Longrightarrow> 0 \<le> m \<Longrightarrow> str_digits n = str_digits m \<Longrightarrow> n = m"
proof (induction n arbitrary: m rule: str_digits.induct)
  case (1 n)
  show ?case
  proof (cases "n < 10")
    case small_n: True
    then have n: "str_digits n = [digit_char n]"
      by (subst str_digits.simps) simp
    show ?thesis
    proof (cases "m < 10")
      case True
      then have "str_digits m = [digit_char m]"
        by (subst str_digits.simps) simp
      with n "1.prems" have "digit_char n = digit_char m" by simp
      with "1.prems" small_n True show ?thesis
        by (intro digit_char_inj) simp_all
    next
      case False
      then have "str_digits m = str_digits (m div 10) @ [digit_char (m mod 10)]"
        by (subst str_digits.simps) simp
      with n "1.prems"(3) have "str_digits (m div 10) = []"
        by simp
      with str_digits_not_Nil show ?thesis by blast
    qed
  next
    case big_n: False
    then have n: "str_digits n = str_digits (n div 10) @ [digit_char (n mod 10)]"
      by (subst str_digits.simps) simp
    show ?thesis
    proof (cases "m < 10")
      case True
      then have "str_digits m = [digit_char m]"
        by (subst str_digits.simps) simp
      with n "1.prems"(3) have "str_digits (n div 10) = []"
        by simp
      with str_digits_not_Nil show ?thesis by blast
    next
      case False
      then have "str_digits m = str_digits (m div 10) @ [digit_char (m mod 10)]"
        by (subst str_digits.simps) simp
      with n "1.prems"(3)
      have front: "str_digits (n div 10) = str_digits (m div 10)"
        and final: "digit_char (n mod 10) = digit_char (m mod 10)"
        by simp_all
      have "n div 10 = m div 10"
        using big_n "1.prems"(1,2) front by (intro "1.IH") simp_all
      moreover have "n mod 10 = m mod 10"
        using final by (intro digit_char_inj) simp_all
      ultimately have "10 * (n div 10) + n mod 10 = 10 * (m div 10) + m mod 10"
        by simp
      then show ?thesis
        by (simp only: mult_div_mod_eq)
    qed
  qed
qed

lemma str_int_last_not_minus: "last (str_int i) \<noteq> CHR ''-''"
proof -
  have "last (str_digits n) \<noteq> CHR ''-''" for n
    using str_digits_no_minus [of n] last_in_set [OF str_digits_not_Nil [of n]] by metis
  then show ?thesis
    by (simp add: str_int_def str_digits_not_Nil)
qed

lemma str_int_inj: "str_int a = str_int b \<Longrightarrow> a = b"
proof -
  assume eq: "str_int a = str_int b"
  have hd: "hd (str_digits n) \<noteq> CHR ''-''" for n
    using str_digits_no_minus [of n] hd_in_set [OF str_digits_not_Nil [of n]] by metis
  show "a = b"
  proof (cases "a < 0")
    case a: True
    show ?thesis
    proof (cases "b < 0")
      case True
      with a eq have "str_digits (- a) = str_digits (- b)"
        by (simp add: str_int_def)
      with a True have "- a = - b"
        by (intro str_digits_inj) simp_all
      then show ?thesis by simp
    next
      case False
      with a eq have "CHR ''-'' # str_digits (- a) = str_digits b"
        by (simp add: str_int_def)
      then have "hd (str_digits b) = CHR ''-''"
        by (metis list.sel(1))
      with hd show ?thesis by blast
    qed
  next
    case a: False
    show ?thesis
    proof (cases "b < 0")
      case True
      with a eq have "str_digits a = CHR ''-'' # str_digits (- b)"
        by (simp add: str_int_def)
      then have "hd (str_digits a) = CHR ''-''"
        by (metis list.sel(1))
      with hd show ?thesis by blast
    next
      case False
      with a eq have "str_digits a = str_digits b"
        by (simp add: str_int_def)
      with a False show ?thesis
        by (intro str_digits_inj) simp_all
    qed
  qed
qed

lemma split_at_first:
  "c \<notin> set as \<Longrightarrow> c \<notin> set bs \<Longrightarrow> as @ c # u = bs @ c # v \<Longrightarrow> as = bs \<and> u = v"
proof (induction as arbitrary: bs)
  case Nil
  then show ?case by (cases bs) auto
next
  case (Cons a as)
  then show ?case by (cases bs) auto
qed

lemma split_at_last_minus:
  assumes "xs @ c # ds = xs' @ c # ds'" and "c \<notin> set ds" and "c \<notin> set ds'"
  shows "xs = xs' \<and> ds = ds'"
proof -
  from assms(1) have "rev (xs @ c # ds) = rev (xs' @ c # ds')" by simp
  then have "rev ds @ c # rev xs = rev ds' @ c # rev xs'" by simp
  moreover have "c \<notin> set (rev ds)" "c \<notin> set (rev ds')"
    using assms(2,3) by simp_all
  ultimately have "rev ds = rev ds' \<and> rev xs = rev xs'"
    by (intro split_at_first)
  then show ?thesis by simp
qed

lemma create_measurement_year_id_inj:
  assumes "create_measurement_year_id p y = create_measurement_year_id p' y'"
  shows "p = p' \<and> y = y'"
proof -
  define X where "X = (if y < 0 then str_int p @ ''-'' else str_int p)"
  define X' where "X' = (if y' < 0 then str_int p' @ ''-'' else str_int p')"
  have l: "create_measurement_year_id p y = X @ CHR ''-'' # str_digits \<bar>y\<bar>"
    by (simp add: create_measurement_year_id_def str_int_def X_def)
  have r: "create_measurement_year_id p' y' = X' @ CHR ''-'' # str_digits \<bar>y'\<bar>"
    by (simp add: create_measurement_year_id_def str_int_def X'_def)
  from assms have "X @ CHR ''-'' # str_digits \<bar>y\<bar> = X' @ CHR ''-'' # str_digits \<bar>y'\<bar>"
    unfolding l r .
  then have "X = X' \<and> str_digits \<bar>y\<bar> = str_digits \<bar>y'\<bar>"
    by (rule split_at_last_minus) (rule str_digits_no_minus)+
  then have X: "X = X'" and d: "str_digits \<bar>y\<bar> = str_digits \<bar>y'\<bar>"
    by simp_all
  from d have abs: "\<bar>y\<bar> = \<bar>y'\<bar>"
    by (intro str_digits_inj) simp_all
  have ne: "str_int i \<noteq> []" for i
    by (simp add: str_int_def str_digits_not_Nil)
  have sign: "(y < 0) = (y' < 0)"
  proof (rule ccontr)
    assume "(y < 0) \<noteq> (y' < 0)"
    then consider "y < 0" "\<not> y' < 0" | "\<not> y < 0" "y' < 0" by blast
    then show False
    proof cases
      case 1
      with X have "str_int p @ ''-'' = str_int p'" by (simp add: X_def X'_def)
      then have "last (str_int p') = CHR ''-''" by (metis last_snoc)
      with str_int_last_not_minus show False by blast
    next
      case 2
      with X have "str_int p = str_int p' @ ''-''" by (simp add: X_def X'_def)
      then have "last (str_int p) = CHR ''-''" by (metis last_snoc)
      with str_int_last_not_minus show False by blast
    qed
  qed
  from X sign have "str_int p = str_int p'"
    by (simp add: X_def X'_def split: if_splits)
  then have "p = p'" by (rule str_int_inj)
  moreover from abs sign have "y = y'" by arith
  ultimately show ?thesis ..
qed


section \<open>The age-band filters\<close>

lemma age_band_12_17:
  "(12 \<le> floordiv_365_25 n \<and> floordiv_365_25 n \<le> 17) = (4383 \<le> n \<and> n \<le> 6574)"
  unfolding floordiv_365_25_def by linarith

lemma age_at_least_18: "(18 \<le> floordiv_365_25 n) = (6575 \<le> n)"
  unfolding floordiv_365_25_def by linarith

lemma age_at_least_12: "(12 \<le> floordiv_365_25 n) = (4383 \<le> n)"
  unfolding floordiv_365_25_def by linarith

lemma CDF_CH_remove_age_exclusion_days:
  "CDF_CH_remove_age_exclusion pop =
     CDF_CH_calculate_age
       (filter (\<lambda>r. case enc_DOB r of None \<Rightarrow> False
                  | Some b \<Rightarrow> 4383 \<le> days_between (enc_VisitDateTime r) b
                              \<and> days_between (enc_VisitDateTime r) b \<le> 6574) pop)"
  unfolding CDF_CH_remove_age_exclusion_def CDF_CH_filter_age_def CDF_CH_calculate_age_def
    filter_map
  by (rule arg_cong [where f = "map _"], rule filter_cong)
     (auto simp: populace_row.defs aged_row.defs calculate_age_days_def age_band_12_17
        split: option.splits)

lemma SDOH_filter_age_days:
  "SDOH_filter_age (SDOH_calculate_age pop) =
     SDOH_calculate_age
       (filter (\<lambda>r. case enc_DOB r of None \<Rightarrow> False
                  | Some b \<Rightarrow> 6575 \<le> days_between (enc_VisitDateTime r) b) pop)"
  unfolding SDOH_filter_age_def SDOH_calculate_age_def filter_map
  by (rule arg_cong [where f = "map _"], rule filter_cong)
     (auto simp: populace_row.defs aged_row.defs calculate_age_days_def age_at_least_18
        split: option.splits)

lemma I_SERV_age_exclusions_years:
  "I_SERV_age_exclusions pop =
     I_SERV_calculate_age
       (filter (\<lambda>r. case is_DOB r of None \<Rightarrow> False
                  | Some b \<Rightarrow> year_of b + 12 \<le> is_measurement_year r) pop)"
  unfolding I_SERV_age_exclusions_def I_SERV_remove_age_def I_SERV_calculate_age_def filter_map
  by (rule arg_cong [where f = "map _"], rule filter_cong)
     (auto simp: iserv_row.defs iserv_aged_row.defs split: option.splits)

lemma DEP_REM_aged_rows_days:
  "map stratify_row.truncate
     (map (\<lambda>(r, a). stratify_row.extend r (stratify_aged.fields
              (case a of None \<Rightarrow> ''12-18''
               | Some age \<Rightarrow> if age \<ge> 18 then ''18+'' else ''12-18'')))
        (filter (\<lambda>(r, a). case a of None \<Rightarrow> False | Some n \<Rightarrow> n \<ge> 12)
           (map (\<lambda>r. (r, calculate_age_days (st_Date r) (st_DOB r))) stratify)))
   = filter (\<lambda>r. case st_DOB r of None \<Rightarrow> False
               | Some b \<Rightarrow> 4383 \<le> days_between (st_Date r) b) stratify"
  by (induction stratify)
     (auto simp: stratify_row.defs stratify_aged.defs calculate_age_days_def age_at_least_12
        split: option.splits)

lemma DEP_REM_calculate_age_days:
  "map_sum id (map stratify_row.truncate) (DEP_REM_calculate_age stratify) =
     (if list_ex (\<lambda>r. st_DOB r = None) stratify then Inl AttributeError
      else Inr (filter (\<lambda>r. case st_DOB r of None \<Rightarrow> False
                          | Some b \<Rightarrow> 4383 \<le> days_between (st_Date r) b) stratify))"
proof (cases "list_ex (\<lambda>r. st_DOB r = None) stratify")
  case True
  then show ?thesis
    unfolding DEP_REM_calculate_age_def by simp
next
  case False
  then show ?thesis
    unfolding DEP_REM_calculate_age_def Let_def
    by (simp only: if_False map_sum.simps DEP_REM_aged_rows_days)
qed

lemma ASC_remove_age_exclusions_ages:
  "ASC_remove_age_exclusions populace =
     filter (\<lambda>r. case asc_Age r of None \<Rightarrow> False | Some a \<Rightarrow> 17 < a) populace"
  unfolding ASC_remove_age_exclusions_def
  by (rule filter_cong) (auto split: option.splits)

lemma age_filter_boundaries:
  "CDF_CH_filter_age [r\<lparr>enc_age := Some 12\<rparr>] = [r\<lparr>enc_age := Some 12\<rparr>]"
  "CDF_CH_filter_age [r\<lparr>enc_age := Some 11\<rparr>] = []"
  "CDF_CH_filter_age [r\<lparr>enc_age := Some 17\<rparr>] = [r\<lparr>enc_age := Some 17\<rparr>]"
  "CDF_CH_filter_age [r\<lparr>enc_age := Some 18\<rparr>] = []"
  "SDOH_filter_age [r\<lparr>enc_age := Some 18\<rparr>] = [r\<lparr>enc_age := Some 18\<rparr>]"
  "SDOH_filter_age [r\<lparr>enc_age := Some 17\<rparr>] = []"
  "I_SERV_remove_age [i\<lparr>is_age := Some 12\<rparr>] = [i\<lparr>is_age := Some 12\<rparr>]"
  "I_SERV_remove_age [i\<lparr>is_age := Some 11\<rparr>] = []"
  "ASC_remove_age_exclusions [a\<lparr>asc_Age := Some 18\<rparr>] = [a\<lparr>asc_Age := Some 18\<rparr>]"
  "ASC_remove_age_exclusions [a\<lparr>asc_Age := Some 17\<rparr>] = []"
  by (simp_all add: CDF_CH_filter_age_def SDOH_filter_age_def I_SERV_remove_age_def
      ASC_remove_age_exclusions_def)

text \<open>
  C8, as stated: every age-band filter computes the age as
  \<^verbatim>\<open>(encounter_date - DOB).days // 365.25\<close>. It fails for I-SERV, whose age is the
  measurement year minus the year of birth: a caller born on 2012-12-31 who calls on
  2024-01-02 has lived 4019 days, which is 11 by the formula of the claim; I-SERV
  computes 12 and keeps the caller.
\<close>

theorem C8_counterexample:
  "map is_age (I_SERV_age_exclusions [eleven_year_old_caller]) = [Some 12]
   \<and> calculate_age_days (is_StartDate eleven_year_old_caller) (is_DOB eleven_year_old_caller)
       = Some 11"
  by code_simp

text \<open>
  C8, amended. CDF-CH, SDOH and the stratification of DEP-REM compute the age as the whole
  days between the date of birth and the encounter, floor-divided by 365.25: CDF-CH keeps
  the rows with 4383 to 6574 days (ages 12 to 17), SDOH those with at least 6575 days
  (age 18) and DEP-REM's stratify table, where every row has a date of birth, those with
  at least 4383 days (age 12). I-SERV computes the age as the measurement year minus the
  year of birth and keeps 12 and more. ASC takes the age from its query and keeps
  exactly the rows with an age above 17. CDF-CH, SDOH, I-SERV and ASC remove a row with
  no date of birth (no age). In each filter a computed age equal to the bound is kept and
  the age one below it is removed.
\<close>

theorem C8_age_filters_as_implemented:
  "calculate_age_days (Ts v) (Some (Ts b)) = Some ((4 * ((v - b) div 86400000000000)) div 1461)
   \<and> CDF_CH_remove_age_exclusion pop =
       CDF_CH_calculate_age
         (filter (\<lambda>r. case enc_DOB r of None \<Rightarrow> False
                    | Some b \<Rightarrow> 4383 \<le> days_between (enc_VisitDateTime r) b
                                \<and> days_between (enc_VisitDateTime r) b \<le> 6574) pop)
   \<and> SDOH_filter_age (SDOH_calculate_age pop) =
       SDOH_calculate_age
         (filter (\<lambda>r. case enc_DOB r of None \<Rightarrow> False
                    | Some b \<Rightarrow> 6575 \<le> days_between (enc_VisitDateTime r) b) pop)
   \<and> map_sum id (map stratify_row.truncate) (DEP_REM_calculate_age stratify) =
       (if list_ex (\<lambda>r. st_DOB r = None) stratify then Inl AttributeError
        else Inr (filter (\<lambda>r. case st_DOB r of None \<Rightarrow> False
                            | Some b \<Rightarrow> 4383 \<le> days_between (st_Date r) b) stratify))
   \<and> I_SERV_age_exclusions calls =
       I_SERV_calculate_age
         (filter (\<lambda>r. case is_DOB r of None \<Rightarrow> False
                    | Some b \<Rightarrow> year_of b + 12 \<le> is_measurement_year r) calls)
   \<and> ASC_remove_age_exclusions populace =
       filter (\<lambda>r. case asc_Age r of None \<Rightarrow> False | Some a \<Rightarrow> 17 < a) populace
   \<and> CDF_CH_filter_age [r\<lparr>enc_age := Some 12\<rparr>] = [r\<lparr>enc_age := Some 12\<rparr>]
   \<and> CDF_CH_filter_age [r\<lparr>enc_age := Some 11\<rparr>] = []
   \<and> CDF_CH_filter_age [r\<lparr>enc_age := Some 17\<rparr>] = [r\<lparr>enc_age := Some 17\<rparr>]
   \<and> CDF_CH_filter_age [r\<lparr>enc_age := Some 18\<rparr>] = []
   \<and> SDOH_filter_age [r\<lparr>enc_age := Some 18\<rparr>] = [r\<lparr>enc_age := Some 18\<rparr>]
   \<and> SDOH_filter_age [r\<lparr>enc_age := Some 17\<rparr>] = []
   \<and> I_SERV_remove_age [i\<lparr>is_age := Some 12\<rparr>] = [i\<lparr>is_age := Some 12\<rparr>]
   \<and> I_SERV_remove_age [i\<lparr>is_age := Some 11\<rparr>] = []
   \<and> ASC_remove_age_exclusions [a\<lparr>asc_Age := Some 18\<rparr>] = [a\<lparr>asc_Age := Some 18\<rparr>]
   \<and> ASC_remove_age_exclusions [a\<lparr>asc_Age := Some 17\<rparr>] = []"
proof -
  have formula: "calculate_age_days (Ts v) (Some (Ts b))
      = Some ((4 * ((v - b) div 86400000000000)) div 1461)"
    by (simp add: calculate_age_days_def floordiv_365_25_def ns_per_day_def)
  show ?thesis
    by (intro conjI formula CDF_CH_remove_age_exclusion_days SDOH_filter_age_days
        DEP_REM_calculate_age_days I_SERV_age_exclusions_years
        ASC_remove_age_exclusions_ages age_filter_boundaries)
qed


section \<open>Facts about the table operations\<close>

lemma set_drop_duplicates_subset: "set (drop_duplicates k xs) \<subseteq> set xs"
  by (induction k xs rule: drop_duplicates.induct) auto

lemma keys_drop_duplicates: "k ` set (drop_duplicates k xs) = k ` set xs"
proof (induction k xs rule: drop_duplicates.induct)
  case (1 k)
  show ?case by simp
next
  case (2 k x xs)
  have "k ` set (x # xs) = insert (k x) (k ` set (filter (\<lambda>y. k y \<noteq> k x) xs))"
    by auto
  with 2 show ?case by simp
qed

lemma distinct_drop_duplicates: "distinct (map k (drop_duplicates k xs))"
proof (induction k xs rule: drop_duplicates.induct)
  case (1 k)
  show ?case by simp
next
  case (2 k x xs)
  have "k x \<notin> k ` set (drop_duplicates k (filter (\<lambda>y. k y \<noteq> k x) xs))"
    using set_drop_duplicates_subset [of k "filter (\<lambda>y. k y \<noteq> k x) xs"] by auto
  with 2 show ?case by simp
qed

lemma filter_drop_duplicates:
  "filter (\<lambda>y. k y = a) (drop_duplicates k xs) = take 1 (filter (\<lambda>y. k y = a) xs)"
proof (induction k xs rule: drop_duplicates.induct)
  case (1 k)
  show ?case by simp
next
  case (2 k x xs)
  show ?case
  proof (cases "k x = a")
    case True
    have "filter (\<lambda>y. k y = a) (drop_duplicates k (filter (\<lambda>y. k y \<noteq> k x) xs)) = []"
      using set_drop_duplicates_subset [of k "filter (\<lambda>y. k y \<noteq> k x) xs"] True
      by (auto simp: filter_empty_conv)
    with True show ?thesis by simp
  next
    case False
    have "filter (\<lambda>y. k y = a) (filter (\<lambda>y. k y \<noteq> k x) xs) = filter (\<lambda>y. k y = a) xs"
      using False by (auto intro: filter_cong)
    with False 2 show ?thesis by simp
  qed
qed

lemma sorted_drop_duplicates:
  "sorted (map f xs) \<Longrightarrow> sorted (map f (drop_duplicates k xs))"
proof (induction k xs rule: drop_duplicates.induct)
  case (1 k)
  show ?case by simp
next
  case (2 k x xs)
  from "2.prems" have s: "sorted (map f xs)" and le: "\<forall>y\<in>set xs. f x \<le> f y"
    by auto
  have "sorted (map f (filter (\<lambda>y. k y \<noteq> k x) xs))"
    using s by (rule sorted_filter)
  then have "sorted (map f (drop_duplicates k (filter (\<lambda>y. k y \<noteq> k x) xs)))"
    by (rule "2.IH")
  moreover have "\<forall>y\<in>set (drop_duplicates k (filter (\<lambda>y. k y \<noteq> k x) xs)). f x \<le> f y"
    using le set_drop_duplicates_subset [of k "filter (\<lambda>y. k y \<noteq> k x) xs"] by auto
  ultimately show ?case by simp
qed

lemma distinct_key_head: "distinct (map k (y # zs)) \<Longrightarrow> \<forall>w\<in>set zs. k w \<noteq> k y"
  by (auto simp: image_iff)

lemma filter_distinct_key:
  "distinct (map k ys) \<Longrightarrow> y \<in> set ys \<Longrightarrow> filter (\<lambda>z. k z = k y) ys = [y]"
proof (induction ys)
  case Nil
  then show ?case by simp
next
  case (Cons z zs)
  show ?case
  proof (cases "z = y")
    case True
    with Cons.prems have "\<forall>w\<in>set zs. k w \<noteq> k y"
      using distinct_key_head [of k y zs] by simp
    then have "filter (\<lambda>w. k w = k y) zs = []"
      by (simp add: filter_empty_conv)
    with True show ?thesis by simp
  next
    case False
    with Cons.prems have "y \<in> set zs" and "k z \<noteq> k y" and "distinct (map k zs)"
      by auto
    with Cons.IH show ?thesis by simp
  qed
qed

lemma filter_distinct_key_le1:
  "distinct (map k ys) \<Longrightarrow> length (filter (\<lambda>z. k z = a) ys) \<le> 1"
proof (cases "\<exists>y\<in>set ys. k y = a")
  case True
  assume "distinct (map k ys)"
  with True show ?thesis using filter_distinct_key [of k ys] by auto
next
  case False
  then have "filter (\<lambda>z. k z = a) ys = []" by (auto simp: filter_empty_conv)
  then show ?thesis by simp
qed

lemma concat_map_distinct_key:
  "distinct (map k xs) \<Longrightarrow> x \<in> set xs \<Longrightarrow>
   concat (map (\<lambda>y. if k y = k x then h y else []) xs) = h x"
proof (induction xs)
  case Nil
  then show ?case by simp
next
  case (Cons z zs)
  show ?case
  proof (cases "z = x")
    case True
    with Cons.prems have "\<forall>y\<in>set zs. k y \<noteq> k x"
      using distinct_key_head [of k x zs] by simp
    then have "concat (map (\<lambda>y. if k y = k x then h y else []) zs) = []"
      by (induction zs) auto
    with True show ?thesis by simp
  next
    case False
    with Cons.prems have "x \<in> set zs" and "k z \<noteq> k x" and "distinct (map k zs)"
      by auto
    with Cons.IH show ?thesis by simp
  qed
qed

lemma merge_left_rows:
  "merge_left ka kb join xs ys =
     concat (map (\<lambda>x. if filter (\<lambda>y. kb y = ka x) ys = [] then [join x None]
                       else map (\<lambda>y. join x (Some y)) (filter (\<lambda>y. kb y = ka x) ys)) xs)"
  unfolding merge_left_def
  by (rule arg_cong [where f = concat], rule map_cong) (auto split: list.splits)

lemma merge_left_distinct_right:
  assumes "distinct (map kb ys)"
  shows "merge_left ka kb join xs ys = map (\<lambda>x. join x (find (\<lambda>y. kb y = ka x) ys)) xs"
proof -
  have one: "(if filter (\<lambda>y. kb y = a) ys = [] then [join x None]
              else map (\<lambda>y. join x (Some y)) (filter (\<lambda>y. kb y = a) ys))
             = [join x (find (\<lambda>y. kb y = a) ys)]" for a x
  proof (cases "find (\<lambda>y. kb y = a) ys")
    case None
    then have "filter (\<lambda>y. kb y = a) ys = []"
      by (auto simp: find_None_iff filter_empty_conv)
    with None show ?thesis by simp
  next
    case (Some m)
    then have "m \<in> set ys" and "kb m = a"
      by (auto simp: find_Some_iff)
    with assms have "filter (\<lambda>y. kb y = a) ys = [m]"
      using filter_distinct_key [of kb ys m] by simp
    with Some show ?thesis by simp
  qed
  show ?thesis
    unfolding merge_left_rows one by (induction xs) auto
qed


section \<open>CDF-CH: a member with no screening\<close>

lemma CDF_CH_get_populace_distinct:
  "distinct (map enc_patient_measurement_year_id (CDF_CH_get_populace encs))"
  unfolding CDF_CH_get_populace_def by (rule distinct_drop_duplicates)

lemma CDF_CH_remove_age_exclusion_distinct:
  assumes "distinct (map enc_patient_measurement_year_id pop)"
  shows "distinct (map enc_patient_measurement_year_id (CDF_CH_remove_age_exclusion pop))"
proof -
  have "map enc_patient_measurement_year_id (CDF_CH_calculate_age pop)
        = map enc_patient_measurement_year_id pop"
    by (simp add: CDF_CH_calculate_age_def populace_row.defs aged_row.defs comp_def)
  with assms show ?thesis
    unfolding CDF_CH_remove_age_exclusion_def CDF_CH_filter_age_def
    by (simp add: distinct_map_filter)
qed

lemma CDF_CH_filter_mental_exclsusion_filter:
  "\<exists>Q. CDF_CH_filter_mental_exclsusion pop exclusions = filter Q pop"
proof -
  define ex where "ex = drop_duplicates dx_PatientId
      (sort_values dx_PatientId (sort_values_na_last dx_exclusion_date exclusions))"
  have d: "distinct (map dx_PatientId ex)"
    unfolding ex_def by (rule distinct_drop_duplicates)
  have "CDF_CH_filter_mental_exclsusion pop exclusions =
      map fst (filter (\<lambda>(r, d). case d of None \<Rightarrow> True | Some t \<Rightarrow> enc_VisitDateTime r \<le> t)
        (map (\<lambda>r. (r, case find (\<lambda>y. dx_PatientId y = enc_PatientId r) ex of
                          None \<Rightarrow> None | Some d \<Rightarrow> dx_exclusion_date d)) pop))"
    unfolding CDF_CH_filter_mental_exclsusion_def Let_def ex_def [symmetric]
      merge_left_distinct_right [OF d] ..
  also have "\<dots> = filter (\<lambda>r. case (case find (\<lambda>y. dx_PatientId y = enc_PatientId r) ex of
                          None \<Rightarrow> None | Some d \<Rightarrow> dx_exclusion_date d) of
                        None \<Rightarrow> True | Some t \<Rightarrow> enc_VisitDateTime r \<le> t) pop"
    by (induction pop) auto
  finally show ?thesis by blast
qed

lemma CDF_CH_get_denominator_distinct:
  "distinct (map enc_patient_measurement_year_id (CDF_CH_get_denominator db))"
proof -
  define aged where
    "aged = CDF_CH_remove_age_exclusion (CDF_CH_get_populace (db_encounters db))"
  have a: "distinct (map enc_patient_measurement_year_id aged)"
    unfolding aged_def
    by (rule CDF_CH_remove_age_exclusion_distinct) (rule CDF_CH_get_populace_distinct)
  obtain Q1 where q1: "CDF_CH_filter_mental_exclsusion aged (drop_duplicates id (db_depressions db))
      = filter Q1 aged"
    using CDF_CH_filter_mental_exclsusion_filter by blast
  obtain Q2 where q2: "CDF_CH_filter_mental_exclsusion (filter Q1 aged)
      (drop_duplicates id (db_bipolars db)) = filter Q2 (filter Q1 aged)"
    using CDF_CH_filter_mental_exclsusion_filter by blast
  have "CDF_CH_get_denominator db = filter Q2 (filter Q1 aged)"
    unfolding CDF_CH_get_denominator_def CDF_CH_remove_mental_exclusions_def
      aged_def [symmetric] q1 q2 ..
  with a show ?thesis by (simp add: distinct_map_filter)
qed

lemma CDF_CH_judged_rows_of_unscreened:
  assumes r: "r \<in> set pop"
      and d: "distinct (map enc_patient_measurement_year_id pop)"
      and none: "\<forall>s\<in>set (CDF_CH_prep_screenings_for_merge scr).
                   ps_patient_measurement_year_id s \<noteq> enc_patient_measurement_year_id r"
  shows "filter (\<lambda>j. enc_patient_measurement_year_id j = enc_patient_measurement_year_id r)
           (CDF_CH_determine_screenings_results (CDF_CH_add_screenings_to_populace pop scr))
         = [screened_row.extend (aged_row.extend r (screened_row.fields None None None))
              (judged_row.fields False)]"
proof -
  define prepped where "prepped = CDF_CH_prep_screenings_for_merge scr"
  define join where "join = (\<lambda>(r::aged_row) (s::prepped_screening option). aged_row.extend r (screened_row.fields
                 (map_option ps_screening_encounter_id s)
                 (case s of None \<Rightarrow> None | Some p \<Rightarrow> ps_screening_date p)
                 (case s of None \<Rightarrow> None | Some p \<Rightarrow> ps_screening_score p)))"
  define H where "H = (\<lambda>x. if filter (\<lambda>y. ps_patient_measurement_year_id y
                                = enc_patient_measurement_year_id x) prepped = []
                then [join x None]
                else map (\<lambda>y. join x (Some y))
                  (filter (\<lambda>y. ps_patient_measurement_year_id y
                     = enc_patient_measurement_year_id x) prepped))"
  define k where "k = enc_patient_measurement_year_id r"
  have merged: "CDF_CH_add_screenings_to_populace pop scr = concat (map H pop)"
    unfolding CDF_CH_add_screenings_to_populace_def merge_left_rows H_def join_def prepped_def ..
  have key: "enc_patient_measurement_year_id (join x s) = enc_patient_measurement_year_id x"
    for x s
    by (simp add: join_def aged_row.defs screened_row.defs)
  have "filter (\<lambda>m. enc_patient_measurement_year_id m = k) (H x)
        = (if enc_patient_measurement_year_id x = k then H x else [])" for x
    by (auto simp: H_def key filter_empty_conv)
  then have "filter (\<lambda>m. enc_patient_measurement_year_id m = k) (concat (map H pop))
        = concat (map (\<lambda>x. if enc_patient_measurement_year_id x = k then H x else []) pop)"
    by (simp add: filter_concat comp_def)
  also have "\<dots> = H r"
    unfolding k_def using d r by (rule concat_map_distinct_key)
  also have "\<dots> = [join r None]"
    using none by (simp add: H_def prepped_def filter_empty_conv)
  finally have one: "filter (\<lambda>m. enc_patient_measurement_year_id m = k)
      (CDF_CH_add_screenings_to_populace pop scr) = [join r None]"
    unfolding merged .
  have "filter (\<lambda>j. enc_patient_measurement_year_id j = k)
          (CDF_CH_determine_screenings_results (CDF_CH_add_screenings_to_populace pop scr))
        = map (\<lambda>r. screened_row.extend r (judged_row.fields
                 (case ch_screening_score r of None \<Rightarrow> False | Some s \<Rightarrow> s > 9)))
            (filter (\<lambda>m. enc_patient_measurement_year_id m = k)
               (CDF_CH_add_screenings_to_populace pop scr))"
    unfolding CDF_CH_determine_screenings_results_def filter_map
    by (simp add: comp_def screened_row.defs judged_row.defs)
  then show ?thesis
    unfolding one unfolding k_def
    by (simp add: join_def aged_row.defs screened_row.defs judged_row.defs)
qed

lemma CDF_CH_set_positive_numerators_keys:
  assumes "x \<in> set (CDF_CH_set_positive_numerators pop positive_screenings)"
  shows "\<exists>p\<in>set positive_screenings.
           enc_patient_measurement_year_id x = enc_patient_measurement_year_id p"
proof -
  define merged where "merged = merge_left enc_PatientId fst
      (\<lambda>(r::judged_row) (f::(int \<times> timestamp) option). (r, map_option snd f))
      positive_screenings (CDF_CH_find_follow_ups pop)"
  have m: "\<forall>q\<in>set merged. fst q \<in> set positive_screenings"
    unfolding merged_def merge_left_rows by (auto split: if_splits)
  from assms obtain q where "q \<in> set merged"
    and "enc_patient_measurement_year_id x = enc_patient_measurement_year_id (fst q)"
    unfolding CDF_CH_set_positive_numerators_def Let_def merged_def [symmetric]
    by (auto simp: judged_row.defs numerator_row.defs)
  with m show ?thesis by auto
qed

text \<open>
  C10: a member of the denominator with no screening of the measurement year (no
  prepared screening row has the member's id) has exactly one row in the final cohort
  table, with no screening encounter, \<^verbatim>\<open>numerator = True\<close> and the description
  \<^verbatim>\<open>'Negative screening'\<close>.
\<close>

theorem C10_unscreened_member_is_negative_screening:
  assumes r: "r \<in> set (CDF_CH_get_denominator db)"
      and none: "\<forall>s\<in>set (CDF_CH_prep_screenings_for_merge (db_screenings db)).
                   ps_patient_measurement_year_id s \<noteq> enc_patient_measurement_year_id r"
  shows "filter (\<lambda>c. co_patient_measurement_year_id c = enc_patient_measurement_year_id r)
           (CDF_CH_cohort db)
         = [\<lparr>co_patient_measurement_year_id = enc_patient_measurement_year_id r,
              co_PatientId = enc_PatientId r,
              co_EncounterId = enc_EncounterId r,
              co_screening_encounter_id = None,
              co_last_encounter = None,
              co_numerator = True,
              co_numerator_desc = Some ''Negative screening''\<rparr>]"
proof -
  define k where "k = enc_patient_measurement_year_id r"
  define den where "den = CDF_CH_get_denominator db"
  define judged where "judged = CDF_CH_determine_screenings_results
      (CDF_CH_add_screenings_to_populace den (db_screenings db))"
  define jr where "jr = screened_row.extend (aged_row.extend r (screened_row.fields None None None))
      (judged_row.fields False)"
  define P where "P = CDF_CH_set_positive_numerators judged (filter ch_positive_screening judged)"
  define N where "N = CDF_CH_set_negative_numerators
      (filter (\<lambda>r. \<not> ch_positive_screening r) judged)"
  define proj where "proj = (\<lambda>r::numerator_row.
      \<lparr>co_patient_measurement_year_id = enc_patient_measurement_year_id r,
       co_PatientId = enc_PatientId r,
       co_EncounterId = enc_EncounterId r,
       co_screening_encounter_id = ch_screening_encounter_id r,
       co_last_encounter = ch_last_encounter r,
       co_numerator = ch_numerator r,
       co_numerator_desc = ch_numerator_desc r\<rparr>)"
  have J: "filter (\<lambda>j. enc_patient_measurement_year_id j = k) judged = [jr]"
    unfolding judged_def k_def jr_def
    using r none CDF_CH_get_denominator_distinct [of db]
    unfolding den_def [symmetric]
    by (intro CDF_CH_judged_rows_of_unscreened) auto
  have jr_neg: "\<not> ch_positive_screening jr"
    by (simp add: jr_def screened_row.defs judged_row.defs)
  have P_none: "filter (\<lambda>x. enc_patient_measurement_year_id x = k) P = []"
  proof (rule ccontr)
    assume "filter (\<lambda>x. enc_patient_measurement_year_id x = k) P \<noteq> []"
    then obtain x where "x \<in> set P" and xk: "enc_patient_measurement_year_id x = k"
      by (auto simp: filter_empty_conv)
    then obtain p where p: "p \<in> set (filter ch_positive_screening judged)"
      and "enc_patient_measurement_year_id x = enc_patient_measurement_year_id p"
      unfolding P_def using CDF_CH_set_positive_numerators_keys by blast
    with xk have "p \<in> set (filter (\<lambda>j. enc_patient_measurement_year_id j = k) judged)"
      by simp
    with J have "p = jr" by simp
    with p jr_neg show False by simp
  qed
  have "filter (\<lambda>x. enc_patient_measurement_year_id x = k) N
        = map (\<lambda>r. judged_row.extend r (numerator_row.fields None True (Some ''Negative screening'')))
            (filter (\<lambda>j. \<not> ch_positive_screening j)
               (filter (\<lambda>j. enc_patient_measurement_year_id j = k) judged))"
    unfolding N_def CDF_CH_set_negative_numerators_def filter_map
    by (simp add: comp_def judged_row.defs numerator_row.defs conj_commute)
  then have N_one: "filter (\<lambda>x. enc_patient_measurement_year_id x = k) N
        = [judged_row.extend jr (numerator_row.fields None True (Some ''Negative screening''))]"
    unfolding J using jr_neg by simp
  have cohort: "CDF_CH_cohort db = drop_duplicates co_patient_measurement_year_id (map proj (P @ N))"
    unfolding CDF_CH_cohort_def CDF_CH_trim_unnecessary_populace_data_def
      CDF_CH_find_performance_met_def Let_def proj_def P_def N_def judged_def den_def ..
  have "filter (\<lambda>c. co_patient_measurement_year_id c = k) (CDF_CH_cohort db)
        = take 1 (filter (\<lambda>c. co_patient_measurement_year_id c = k) (map proj (P @ N)))"
    unfolding cohort by (rule filter_drop_duplicates)
  also have "filter (\<lambda>c. co_patient_measurement_year_id c = k) (map proj (P @ N))
        = map proj (filter (\<lambda>x. enc_patient_measurement_year_id x = k) P)
          @ map proj (filter (\<lambda>x. enc_patient_measurement_year_id x = k) N)"
    by (simp add: filter_map comp_def proj_def)
  finally have "filter (\<lambda>c. co_patient_measurement_year_id c = k) (CDF_CH_cohort db)
        = [proj (judged_row.extend jr (numerator_row.fields None True (Some ''Negative screening'')))]"
    unfolding P_none N_one by simp
  then show ?thesis
    unfolding k_def
    by (simp add: proj_def jr_def aged_row.defs screened_row.defs judged_row.defs
        numerator_row.defs)
qed

lemma CDF_CH_cohort_of_unscreened_db:
  "CDF_CH_cohort unscreened_db =
     [\<lparr>co_patient_measurement_year_id = ''60-2024'', co_PatientId = 60,
        co_EncounterId = 600, co_screening_encounter_id = None,
        co_last_encounter = None, co_numerator = True,
        co_numerator_desc = Some ''Negative screening''\<rparr>,
      \<lparr>co_patient_measurement_year_id = ''61-2024'', co_PatientId = 61,
        co_EncounterId = 610, co_screening_encounter_id = Some 610,
        co_last_encounter = None, co_numerator = True,
        co_numerator_desc = Some ''Negative screening''\<rparr>]"
  by code_simp

theorem C10_unscreened_member_witness:
  "unscreened_member \<in> set (CDF_CH_get_denominator unscreened_db)
   \<and> filter (\<lambda>c. co_patient_measurement_year_id c
                  = enc_patient_measurement_year_id unscreened_member)
         (CDF_CH_cohort unscreened_db)
       = [\<lparr>co_patient_measurement_year_id = enc_patient_measurement_year_id unscreened_member,
            co_PatientId = enc_PatientId unscreened_member,
            co_EncounterId = enc_EncounterId unscreened_member,
            co_screening_encounter_id = None,
            co_last_encounter = None,
            co_numerator = True,
            co_numerator_desc = Some ''Negative screening''\<rparr>]"
proof -
  have member: "unscreened_member \<in> set (CDF_CH_get_denominator unscreened_db)"
    by code_simp
  have unscreened:
    "\<forall>s\<in>set (CDF_CH_prep_screenings_for_merge (db_screenings unscreened_db)).
       ps_patient_measurement_year_id s \<noteq> enc_patient_measurement_year_id unscreened_member"
    by code_simp
  show ?thesis
    by (rule conjI [OF member
          C10_unscreened_member_is_negative_screening [OF member unscreened]])
qed


section \<open>DEP-REM: index events and index groups\<close>

lemma sorted_first_of_key:
  assumes "sorted (map f xs)" and "take 1 (filter P xs) = [y]" and "x \<in> set xs" and "P x"
  shows "f y \<le> f x"
proof -
  from assms(2) obtain rest where hd: "filter P xs = y # rest"
    by (cases "filter P xs") auto
  have "sorted (map f (filter P xs))"
    using assms(1) by (rule sorted_filter)
  with hd have "\<forall>z\<in>set (y # rest). f y \<le> f z" by auto
  moreover have "x \<in> set (filter P xs)"
    using assms(3,4) by simp
  then have "x \<in> set (y # rest)"
    unfolding hd .
  ultimately show ?thesis by blast
qed

lemma sorted_last_is_max:
  assumes "sorted (map f xs)" and "x \<in> set xs"
  shows "f x \<le> f (last xs)"
  using assms by (induction xs) auto

lemma DEP_REM_initilize_populace_set: "set (DEP_REM_initilize_populace phq) = set phq"
  by (simp add: DEP_REM_initilize_populace_def sort_values_def)

lemma DEP_REM_index_visits_sorted:
  "sorted (map ix_Date (DEP_REM_get_index_visits populace))"
  unfolding DEP_REM_get_index_visits_def sort_values_def
  by (rule sorted_drop_duplicates) (rule sorted_sort_key)

text \<open>Every index visit is the row of a visit with a score above 9.\<close>

lemma DEP_REM_index_visit_origin:
  assumes "i \<in> set (DEP_REM_get_index_visits populace)"
  shows "\<exists>v\<in>set populace. (\<exists>s. Score v = Some s \<and> s > 9)
           \<and> ix_PatientId i = PatientId v \<and> ix_EncounterID i = EncounterID v
           \<and> ix_Date i = Date v \<and> ix_measurement_year i = year_of (Date v)
           \<and> ix_patient_measurement_year_id i =
               create_measurement_year_id (PatientId v) (year_of (Date v))"
proof -
  define mk where "mk = (\<lambda>v::visit. \<lparr>ix_PatientId = PatientId v,
                  ix_patient_measurement_year_id =
                    create_measurement_year_id (PatientId v) (year_of (Date v)),
                  ix_EncounterID = EncounterID v,
                  ix_measurement_year = year_of (Date v),
                  ix_Date = Date v\<rparr>)"
  define cand where "cand = sort_values ix_Date
      (map mk (filter (\<lambda>v. case Score v of None \<Rightarrow> False | Some s \<Rightarrow> s > 9) populace))"
  have iv: "DEP_REM_get_index_visits populace
            = drop_duplicates ix_patient_measurement_year_id cand"
    unfolding DEP_REM_get_index_visits_def cand_def mk_def ..
  have "set (drop_duplicates ix_patient_measurement_year_id cand) \<subseteq> set cand"
    by (rule set_drop_duplicates_subset)
  with assms have "i \<in> set cand"
    unfolding iv by (rule rev_subsetD)
  then obtain v where v: "v \<in> set populace"
    and score: "(case Score v of None \<Rightarrow> False | Some s \<Rightarrow> s > 9)"
    and i: "i = mk v"
    unfolding cand_def sort_values_def by auto
  from score have "\<exists>s. Score v = Some s \<and> s > 9"
    by (cases "Score v") simp_all
  with v show ?thesis
    unfolding i mk_def by (intro bexI [of _ v]) simp_all
qed

text \<open>The index visit of an id is the earliest visit with a score above 9 of that id.\<close>

lemma DEP_REM_index_visit_first:
  assumes i: "i \<in> set (DEP_REM_get_index_visits populace)"
      and w: "w \<in> set populace" "Score w = Some s" "s > 9"
      and same: "create_measurement_year_id (PatientId w) (year_of (Date w))
                 = ix_patient_measurement_year_id i"
  shows "ix_Date i \<le> Date w"
proof -
  define mk where "mk = (\<lambda>v::visit. \<lparr>ix_PatientId = PatientId v,
                  ix_patient_measurement_year_id =
                    create_measurement_year_id (PatientId v) (year_of (Date v)),
                  ix_EncounterID = EncounterID v,
                  ix_measurement_year = year_of (Date v),
                  ix_Date = Date v\<rparr>)"
  define cand where "cand = sort_values ix_Date
      (map mk (filter (\<lambda>v. case Score v of None \<Rightarrow> False | Some s \<Rightarrow> s > 9) populace))"
  define k where "k = ix_patient_measurement_year_id i"
  have iv: "DEP_REM_get_index_visits populace
            = drop_duplicates ix_patient_measurement_year_id cand"
    unfolding DEP_REM_get_index_visits_def cand_def mk_def ..
  have sorted: "sorted (map ix_Date cand)"
    unfolding cand_def sort_values_def by (rule sorted_sort_key)
  have "filter (\<lambda>y. ix_patient_measurement_year_id y = k) (DEP_REM_get_index_visits populace)
        = take 1 (filter (\<lambda>y. ix_patient_measurement_year_id y = k) cand)"
    unfolding iv by (rule filter_drop_duplicates)
  moreover have "filter (\<lambda>y. ix_patient_measurement_year_id y = k)
                   (DEP_REM_get_index_visits populace) = [i]"
    unfolding k_def iv
    using distinct_drop_duplicates [of ix_patient_measurement_year_id cand] i [unfolded iv]
    by (rule filter_distinct_key)
  ultimately have first: "take 1 (filter (\<lambda>y. ix_patient_measurement_year_id y = k) cand) = [i]"
    by simp
  have "mk w \<in> set cand"
    using w by (simp add: cand_def sort_values_def)
  moreover have "ix_patient_measurement_year_id (mk w) = k"
    using same by (simp add: mk_def k_def)
  ultimately have "ix_Date i \<le> ix_Date (mk w)"
    using sorted_first_of_key [OF sorted first] by blast
  then show ?thesis by (simp add: mk_def)
qed

text \<open>Every visit with a score above 9 has an index visit of its id, not later than it.\<close>

lemma DEP_REM_index_visit_exists:
  assumes w: "w \<in> set populace" "Score w = Some s" "s > 9"
  shows "\<exists>i\<in>set (DEP_REM_get_index_visits populace).
           ix_patient_measurement_year_id i
             = create_measurement_year_id (PatientId w) (year_of (Date w))
           \<and> ix_Date i \<le> Date w"
proof -
  define mk where "mk = (\<lambda>v::visit. \<lparr>ix_PatientId = PatientId v,
                  ix_patient_measurement_year_id =
                    create_measurement_year_id (PatientId v) (year_of (Date v)),
                  ix_EncounterID = EncounterID v,
                  ix_measurement_year = year_of (Date v),
                  ix_Date = Date v\<rparr>)"
  define cand where "cand = sort_values ix_Date
      (map mk (filter (\<lambda>v. case Score v of None \<Rightarrow> False | Some s \<Rightarrow> s > 9) populace))"
  have iv: "DEP_REM_get_index_visits populace
            = drop_duplicates ix_patient_measurement_year_id cand"
    unfolding DEP_REM_get_index_visits_def cand_def mk_def ..
  have "mk w \<in> set cand"
    using w by (simp add: cand_def sort_values_def)
  then have "ix_patient_measurement_year_id (mk w)
             \<in> ix_patient_measurement_year_id ` set (DEP_REM_get_index_visits populace)"
    unfolding iv keys_drop_duplicates by (rule imageI)
  then obtain i where i: "i \<in> set (DEP_REM_get_index_visits populace)"
    and key: "ix_patient_measurement_year_id i = ix_patient_measurement_year_id (mk w)"
    by auto
  from key have same: "create_measurement_year_id (PatientId w) (year_of (Date w))
                 = ix_patient_measurement_year_id i"
    by (simp add: mk_def)
  have "ix_Date i \<le> Date w"
    using i w same by (rule DEP_REM_index_visit_first)
  with i same show ?thesis by auto
qed

text \<open>
  What \<^verbatim>\<open>__create_patient_measurement_year_id\<close> returns: no group exactly when the
  patient has no index visit on or before the day of the visit, and otherwise the id and
  encounter of the latest such index visit.
\<close>

lemma DEP_REM_create_id_None:
  "DEP_REM_create_patient_measurement_year_id v index_visits = None
   \<longleftrightarrow> \<not> (\<exists>i\<in>set index_visits. ix_PatientId i = PatientId v
                \<and> date_of (ix_Date i) \<le> date_of (Date v))"
proof -
  have "(filter (\<lambda>i. date_of (ix_Date i) \<le> date_of (Date v))
           (filter (\<lambda>i. ix_PatientId i = PatientId v) index_visits) = [])
        \<longleftrightarrow> \<not> (\<exists>i\<in>set index_visits. ix_PatientId i = PatientId v
                \<and> date_of (ix_Date i) \<le> date_of (Date v))"
    by (auto simp: filter_empty_conv)
  moreover have "filter (\<lambda>i. ix_PatientId i = PatientId v) index_visits = []
    \<Longrightarrow> \<not> (\<exists>i\<in>set index_visits. ix_PatientId i = PatientId v
                \<and> date_of (ix_Date i) \<le> date_of (Date v))"
    by (auto simp: filter_empty_conv)
  ultimately show ?thesis
    unfolding DEP_REM_create_patient_measurement_year_id_def Let_def
    by (auto simp: Suc_le_eq)
qed

lemma DEP_REM_create_id_Some:
  assumes some: "DEP_REM_create_patient_measurement_year_id v index_visits = Some (uid, enc)"
      and sorted: "sorted (map ix_Date index_visits)"
  shows "\<exists>i\<in>set index_visits. ix_PatientId i = PatientId v
           \<and> date_of (ix_Date i) \<le> date_of (Date v)
           \<and> enc = ix_EncounterID i
           \<and> uid = create_measurement_year_id (ix_PatientId i) (year_of (ix_Date i))
           \<and> (\<forall>j\<in>set index_visits. ix_PatientId j = PatientId v
                  \<and> date_of (ix_Date j) \<le> date_of (Date v) \<longrightarrow> ix_Date j \<le> ix_Date i)"
proof -
  define masked where "masked = filter (\<lambda>i. date_of (ix_Date i) \<le> date_of (Date v))
      (filter (\<lambda>i. ix_PatientId i = PatientId v) index_visits)"
  from some have ne: "masked \<noteq> []"
    and uid: "uid = str_int (PatientId v) @ ''-'' @ str_int (year_of (ix_Date (last masked)))"
    and enc: "enc = ix_EncounterID (last masked)"
    unfolding DEP_REM_create_patient_measurement_year_id_def Let_def masked_def
    by (auto split: if_splits)
  from ne have last: "last masked \<in> set masked" by simp
  then have in_idx: "last masked \<in> set index_visits"
    and pid: "ix_PatientId (last masked) = PatientId v"
    and before: "date_of (ix_Date (last masked)) \<le> date_of (Date v)"
    unfolding masked_def by auto
  have "sorted (map ix_Date masked)"
    unfolding masked_def using sorted by (intro sorted_filter)
  then have max: "\<forall>j\<in>set masked. ix_Date j \<le> ix_Date (last masked)"
    by (auto intro: sorted_last_is_max)
  have "\<forall>j\<in>set index_visits. ix_PatientId j = PatientId v
          \<and> date_of (ix_Date j) \<le> date_of (Date v) \<longrightarrow> ix_Date j \<le> ix_Date (last masked)"
    using max unfolding masked_def by auto
  with in_idx pid before uid enc show ?thesis
    by (auto simp: create_measurement_year_id_def)
qed

lemma DEP_REM_set_index_groups_rows:
  assumes "DEP_REM_set_index_groups populace index_visits = Inr grouped"
  shows "grouped = concat (map (\<lambda>v.
           case DEP_REM_create_patient_measurement_year_id v index_visits of
             None \<Rightarrow> []
           | Some (uid, enc) \<Rightarrow> [visit.extend v (grouped_visit.fields uid enc)]) populace)"
  using assms unfolding DEP_REM_set_index_groups_def Let_def
  by (auto simp: comp_def split: if_splits)

lemma DEP_REM_set_index_groups_kept:
  assumes "DEP_REM_set_index_groups populace index_visits = Inr grouped"
  shows "map visit.truncate grouped =
           filter (\<lambda>v. \<exists>i\<in>set index_visits. ix_PatientId i = PatientId v
                         \<and> date_of (ix_Date i) \<le> date_of (Date v)) populace"
proof -
  have "map visit.truncate (concat (map (\<lambda>v.
           case DEP_REM_create_patient_measurement_year_id v index_visits of
             None \<Rightarrow> []
           | Some (uid, enc) \<Rightarrow> [visit.extend v (grouped_visit.fields uid enc)]) xs))
        = filter (\<lambda>v. \<exists>i\<in>set index_visits. ix_PatientId i = PatientId v
                         \<and> date_of (ix_Date i) \<le> date_of (Date v)) xs" for xs
  proof (induction xs)
    case Nil
    show ?case by simp
  next
    case (Cons x xs)
    show ?case
    proof (cases "DEP_REM_create_patient_measurement_year_id x index_visits")
      case None
      with Cons DEP_REM_create_id_None [of x index_visits] show ?thesis by simp
    next
      case (Some p)
      with DEP_REM_create_id_None [of x index_visits]
      have "\<exists>i\<in>set index_visits. ix_PatientId i = PatientId x
              \<and> date_of (ix_Date i) \<le> date_of (Date x)"
        by simp
      with Some Cons show ?thesis
        by (cases p) (simp add: visit.defs grouped_visit.defs)
    qed
  qed
  with DEP_REM_set_index_groups_rows [OF assms] show ?thesis by simp
qed

lemma DEP_REM_set_index_groups_attribution:
  assumes ok: "DEP_REM_set_index_groups populace index_visits = Inr grouped"
      and sorted: "sorted (map ix_Date index_visits)"
      and g: "g \<in> set grouped"
  shows "\<exists>i\<in>set index_visits. ix_PatientId i = PatientId g
           \<and> index_encounter_id g = ix_EncounterID i
           \<and> patient_measurement_year_id g
               = create_measurement_year_id (ix_PatientId i) (year_of (ix_Date i))
           \<and> date_of (ix_Date i) \<le> date_of (Date g)
           \<and> (\<forall>j\<in>set index_visits. ix_PatientId j = PatientId g
                  \<and> date_of (ix_Date j) \<le> date_of (Date g) \<longrightarrow> ix_Date j \<le> ix_Date i)"
proof -
  from g DEP_REM_set_index_groups_rows [OF ok]
  obtain v where v: "v \<in> set populace"
    and gin: "g \<in> set (case DEP_REM_create_patient_measurement_year_id v index_visits of
             None \<Rightarrow> []
           | Some (uid, enc) \<Rightarrow> [visit.extend v (grouped_visit.fields uid enc)])"
    by auto
  then obtain uid enc
    where some: "DEP_REM_create_patient_measurement_year_id v index_visits = Some (uid, enc)"
    and gv: "g = visit.extend v (grouped_visit.fields uid enc)"
    by (cases "DEP_REM_create_patient_measurement_year_id v index_visits") auto
  from gv have fields: "PatientId g = PatientId v" "Date g = Date v"
    "patient_measurement_year_id g = uid" "index_encounter_id g = enc"
    by (simp_all add: visit.defs grouped_visit.defs)
  from DEP_REM_create_id_Some [OF some sorted] show ?thesis
    unfolding fields by blast
qed

lemma date_of_mono: "a \<le> b \<Longrightarrow> date_of a \<le> date_of b"
  by (cases a, cases b) (simp add: less_eq_timestamp_def ns_per_day_def zdiv_mono1)

lemma DEP_REM_index_visit_key:
  assumes "i \<in> set (DEP_REM_get_index_visits populace)"
  shows "ix_patient_measurement_year_id i
           = create_measurement_year_id (ix_PatientId i) (ix_measurement_year i)"
    and "ix_measurement_year i = year_of (ix_Date i)"
proof -
  from DEP_REM_index_visit_origin [OF assms]
  obtain v :: visit where "ix_PatientId i = PatientId v" "ix_Date i = Date v"
    "ix_measurement_year i = year_of (Date v)"
    "ix_patient_measurement_year_id i =
       create_measurement_year_id (PatientId v) (year_of (Date v))"
    by auto
  then show "ix_patient_measurement_year_id i
           = create_measurement_year_id (ix_PatientId i) (ix_measurement_year i)"
    and "ix_measurement_year i = year_of (ix_Date i)"
    by simp_all
qed

text \<open>There is one index visit for a patient and a year.\<close>

lemma DEP_REM_index_visits_distinct:
  "distinct (map (\<lambda>i. (ix_PatientId i, ix_measurement_year i))
     (DEP_REM_get_index_visits populace))"
proof -
  have d: "distinct (map ix_patient_measurement_year_id (DEP_REM_get_index_visits populace))"
    unfolding DEP_REM_get_index_visits_def by (rule distinct_drop_duplicates)
  then have "distinct (DEP_REM_get_index_visits populace)"
    and inj: "inj_on ix_patient_measurement_year_id (set (DEP_REM_get_index_visits populace))"
    by (simp_all add: distinct_map)
  moreover have "inj_on (\<lambda>i. (ix_PatientId i, ix_measurement_year i))
                   (set (DEP_REM_get_index_visits populace))"
  proof (rule inj_onI)
    fix a b
    assume a: "a \<in> set (DEP_REM_get_index_visits populace)"
      and b: "b \<in> set (DEP_REM_get_index_visits populace)"
      and eq: "(ix_PatientId a, ix_measurement_year a) = (ix_PatientId b, ix_measurement_year b)"
    from eq DEP_REM_index_visit_key(1) [OF a] DEP_REM_index_visit_key(1) [OF b]
    have "ix_patient_measurement_year_id a = ix_patient_measurement_year_id b"
      by simp
    with inj show "a = b" using a b by (rule inj_onD)
  qed
  ultimately show ?thesis by (simp add: distinct_map)
qed

text \<open>Every visit with a score above 9 has an index visit of its patient and its year.\<close>

lemma DEP_REM_index_visit_of_patient_year:
  assumes w: "w \<in> set populace" "Score w = Some s" "s > 9"
  shows "\<exists>i\<in>set (DEP_REM_get_index_visits populace).
           ix_PatientId i = PatientId w \<and> ix_measurement_year i = year_of (Date w)
           \<and> ix_Date i \<le> Date w"
proof -
  from DEP_REM_index_visit_exists [OF w]
  obtain i where i: "i \<in> set (DEP_REM_get_index_visits populace)"
    and key: "ix_patient_measurement_year_id i
                = create_measurement_year_id (PatientId w) (year_of (Date w))"
    and le: "ix_Date i \<le> Date w"
    by blast
  from key DEP_REM_index_visit_key(1) [OF i]
  have "create_measurement_year_id (ix_PatientId i) (ix_measurement_year i)
          = create_measurement_year_id (PatientId w) (year_of (Date w))"
    by simp
  then have "ix_PatientId i = PatientId w \<and> ix_measurement_year i = year_of (Date w)"
    by (rule create_measurement_year_id_inj)
  with i le show ?thesis by blast
qed

text \<open>
  The step raises exactly when no visit has a score above 9: then every row gives
  \<^verbatim>\<open>'No Group'\<close>.
\<close>

lemma DEP_REM_set_index_groups_raises:
  assumes "DEP_REM_set_index_groups populace (DEP_REM_get_index_visits populace) = Inl e"
  shows "e = ValueError \<and> \<not> (\<exists>v\<in>set populace. \<exists>s. Score v = Some s \<and> 9 < s)"
proof -
  from assms have e: "e = ValueError"
    and none: "\<forall>v\<in>set populace.
      DEP_REM_create_patient_measurement_year_id v (DEP_REM_get_index_visits populace) = None"
    unfolding DEP_REM_set_index_groups_def Let_def
    by (auto simp: list_all_iff split: if_splits)
  have "\<not> (\<exists>v\<in>set populace. \<exists>s. Score v = Some s \<and> 9 < s)"
  proof
    assume "\<exists>v\<in>set populace. \<exists>s. Score v = Some s \<and> 9 < s"
    then obtain w s where w: "w \<in> set populace" "Score w = Some s" "s > 9"
      by blast
    from DEP_REM_index_visit_of_patient_year [OF w]
    obtain i where "i \<in> set (DEP_REM_get_index_visits populace)"
      "ix_PatientId i = PatientId w" "ix_Date i \<le> Date w"
      by blast
    then have "\<exists>i\<in>set (DEP_REM_get_index_visits populace). ix_PatientId i = PatientId w
                \<and> date_of (ix_Date i) \<le> date_of (Date w)"
      using date_of_mono by blast
    then have "DEP_REM_create_patient_measurement_year_id w
                 (DEP_REM_get_index_visits populace) \<noteq> None"
      by (simp only: DEP_REM_create_id_None not_not)
    with none w(1) show False by simp
  qed
  with e show ?thesis ..
qed

lemma DEP_REM_set_index_groups_returns:
  assumes "DEP_REM_set_index_groups populace (DEP_REM_get_index_visits populace) = Inr grouped"
  shows "\<exists>v\<in>set populace. \<exists>s. Score v = Some s \<and> 9 < s"
proof -
  from assms obtain v
    where "DEP_REM_create_patient_measurement_year_id v (DEP_REM_get_index_visits populace)
             \<noteq> None"
    unfolding DEP_REM_set_index_groups_def Let_def
    by (auto simp: list_all_iff split: if_splits)
  then obtain i where "i \<in> set (DEP_REM_get_index_visits populace)"
    unfolding DEP_REM_create_id_None by blast
  from DEP_REM_index_visit_origin [OF this] show ?thesis
    by blast
qed

text \<open>
  C5. DEP-REM index events. The index visits are the visits with a score above 9 that are
  the first such visit of their patient in their calendar year: every visit with a score
  above 9 has one for its patient and year, and there is one for a patient and a year.
  The grouping step raises \<^verbatim>\<open>ValueError\<close> exactly when no visit has a score above 9;
  otherwise every row that it returns carries the id and the encounter of an index visit
  of its patient, dated on or before the day of the row and the latest of those, and
  the rows returned are exactly the visits that have an index visit of their patient on
  or before their day: the other visits are dropped, none is given a later index visit.
\<close>

theorem C5_index_events_and_index_groups:
  assumes populace: "populace = DEP_REM_initilize_populace phq"
      and index_visits: "index_visits = DEP_REM_get_index_visits populace"
  shows "(\<forall>i\<in>set index_visits.
            (\<exists>v\<in>set phq. (\<exists>s. Score v = Some s \<and> 9 < s)
                \<and> ix_PatientId i = PatientId v \<and> ix_EncounterID i = EncounterID v
                \<and> ix_Date i = Date v \<and> ix_measurement_year i = year_of (Date v))
          \<and> (\<forall>w\<in>set phq. (\<exists>s. Score w = Some s \<and> 9 < s)
                  \<and> PatientId w = ix_PatientId i
                  \<and> year_of (Date w) = ix_measurement_year i
                \<longrightarrow> ix_Date i \<le> Date w))
       \<and> (\<forall>w\<in>set phq. (\<exists>s. Score w = Some s \<and> 9 < s)
             \<longrightarrow> (\<exists>i\<in>set index_visits. ix_PatientId i = PatientId w
                     \<and> ix_measurement_year i = year_of (Date w)))
       \<and> distinct (map (\<lambda>i. (ix_PatientId i, ix_measurement_year i)) index_visits)
       \<and> (case DEP_REM_set_index_groups populace index_visits of
            Inl e \<Rightarrow> e = ValueError \<and> \<not> (\<exists>v\<in>set phq. \<exists>s. Score v = Some s \<and> 9 < s)
          | Inr grouped \<Rightarrow>
              (\<exists>v\<in>set phq. \<exists>s. Score v = Some s \<and> 9 < s)
            \<and> (\<forall>g\<in>set grouped. \<exists>i\<in>set index_visits.
                   ix_PatientId i = PatientId g
                 \<and> index_encounter_id g = ix_EncounterID i
                 \<and> patient_measurement_year_id g = ix_patient_measurement_year_id i
                 \<and> date_of (ix_Date i) \<le> date_of (Date g)
                 \<and> (\<forall>j\<in>set index_visits. ix_PatientId j = PatientId g
                        \<and> date_of (ix_Date j) \<le> date_of (Date g)
                      \<longrightarrow> ix_Date j \<le> ix_Date i))
            \<and> map visit.truncate grouped =
                filter (\<lambda>v. \<exists>i\<in>set index_visits. ix_PatientId i = PatientId v
                              \<and> date_of (ix_Date i) \<le> date_of (Date v)) populace)"
proof -
  have setp: "set populace = set phq"
    unfolding populace by (rule DEP_REM_initilize_populace_set)
  have sorted: "sorted (map ix_Date index_visits)"
    unfolding index_visits by (rule DEP_REM_index_visits_sorted)
  have first: "\<forall>i\<in>set index_visits.
            (\<exists>v\<in>set phq. (\<exists>s. Score v = Some s \<and> 9 < s)
                \<and> ix_PatientId i = PatientId v \<and> ix_EncounterID i = EncounterID v
                \<and> ix_Date i = Date v \<and> ix_measurement_year i = year_of (Date v))
          \<and> (\<forall>w\<in>set phq. (\<exists>s. Score w = Some s \<and> 9 < s)
                  \<and> PatientId w = ix_PatientId i
                  \<and> year_of (Date w) = ix_measurement_year i
                \<longrightarrow> ix_Date i \<le> Date w)"
  proof (intro ballI conjI impI)
    fix i assume i: "i \<in> set index_visits"
    from DEP_REM_index_visit_origin [OF i [unfolded index_visits]]
    show "\<exists>v\<in>set phq. (\<exists>s. Score v = Some s \<and> 9 < s)
                \<and> ix_PatientId i = PatientId v \<and> ix_EncounterID i = EncounterID v
                \<and> ix_Date i = Date v \<and> ix_measurement_year i = year_of (Date v)"
      unfolding setp by blast
  next
    fix i w
    assume i: "i \<in> set index_visits" and w: "w \<in> set phq"
      and h: "(\<exists>s. Score w = Some s \<and> 9 < s) \<and> PatientId w = ix_PatientId i
                \<and> year_of (Date w) = ix_measurement_year i"
    from h obtain s where s: "Score w = Some s" "s > 9" by blast
    from h DEP_REM_index_visit_key(1) [OF i [unfolded index_visits]]
    have same: "create_measurement_year_id (PatientId w) (year_of (Date w))
                  = ix_patient_measurement_year_id i"
      by simp
    from w have "w \<in> set populace" unfolding setp .
    with i [unfolded index_visits] show "ix_Date i \<le> Date w"
      using s same by (rule DEP_REM_index_visit_first)
  qed
  have exists: "\<forall>w\<in>set phq. (\<exists>s. Score w = Some s \<and> 9 < s)
             \<longrightarrow> (\<exists>i\<in>set index_visits. ix_PatientId i = PatientId w
                     \<and> ix_measurement_year i = year_of (Date w))"
  proof (intro ballI impI)
    fix w assume w: "w \<in> set phq" and "\<exists>s. Score w = Some s \<and> 9 < s"
    then obtain s where s: "Score w = Some s" "s > 9" by blast
    from w have "w \<in> set populace" unfolding setp .
    from DEP_REM_index_visit_of_patient_year [OF this s]
    show "\<exists>i\<in>set index_visits. ix_PatientId i = PatientId w
            \<and> ix_measurement_year i = year_of (Date w)"
      unfolding index_visits by blast
  qed
  have one: "distinct (map (\<lambda>i. (ix_PatientId i, ix_measurement_year i)) index_visits)"
    unfolding index_visits by (rule DEP_REM_index_visits_distinct)
  have groups: "case DEP_REM_set_index_groups populace index_visits of
            Inl e \<Rightarrow> e = ValueError \<and> \<not> (\<exists>v\<in>set phq. \<exists>s. Score v = Some s \<and> 9 < s)
          | Inr grouped \<Rightarrow>
              (\<exists>v\<in>set phq. \<exists>s. Score v = Some s \<and> 9 < s)
            \<and> (\<forall>g\<in>set grouped. \<exists>i\<in>set index_visits.
                   ix_PatientId i = PatientId g
                 \<and> index_encounter_id g = ix_EncounterID i
                 \<and> patient_measurement_year_id g = ix_patient_measurement_year_id i
                 \<and> date_of (ix_Date i) \<le> date_of (Date g)
                 \<and> (\<forall>j\<in>set index_visits. ix_PatientId j = PatientId g
                        \<and> date_of (ix_Date j) \<le> date_of (Date g)
                      \<longrightarrow> ix_Date j \<le> ix_Date i))
            \<and> map visit.truncate grouped =
                filter (\<lambda>v. \<exists>i\<in>set index_visits. ix_PatientId i = PatientId v
                              \<and> date_of (ix_Date i) \<le> date_of (Date v)) populace"
  proof (cases "DEP_REM_set_index_groups populace index_visits")
    case (Inl e)
    from DEP_REM_set_index_groups_raises [OF Inl [unfolded index_visits]]
    have "e = ValueError \<and> \<not> (\<exists>v\<in>set phq. \<exists>s. Score v = Some s \<and> 9 < s)"
      unfolding setp .
    then show ?thesis
      unfolding Inl sum.case .
  next
    case (Inr grouped)
    from DEP_REM_set_index_groups_returns [OF Inr [unfolded index_visits]]
    have some: "\<exists>v\<in>set phq. \<exists>s. Score v = Some s \<and> 9 < s"
      unfolding setp .
    have attributed: "\<forall>g\<in>set grouped. \<exists>i\<in>set index_visits.
                   ix_PatientId i = PatientId g
                 \<and> index_encounter_id g = ix_EncounterID i
                 \<and> patient_measurement_year_id g = ix_patient_measurement_year_id i
                 \<and> date_of (ix_Date i) \<le> date_of (Date g)
                 \<and> (\<forall>j\<in>set index_visits. ix_PatientId j = PatientId g
                        \<and> date_of (ix_Date j) \<le> date_of (Date g)
                      \<longrightarrow> ix_Date j \<le> ix_Date i)"
    proof
      fix g assume g: "g \<in> set grouped"
      from DEP_REM_set_index_groups_attribution [OF Inr sorted g]
      obtain i where i: "i \<in> set index_visits"
        and a: "ix_PatientId i = PatientId g" "index_encounter_id g = ix_EncounterID i"
          "patient_measurement_year_id g
             = create_measurement_year_id (ix_PatientId i) (year_of (ix_Date i))"
          "date_of (ix_Date i) \<le> date_of (Date g)"
          "\<forall>j\<in>set index_visits. ix_PatientId j = PatientId g
                  \<and> date_of (ix_Date j) \<le> date_of (Date g) \<longrightarrow> ix_Date j \<le> ix_Date i"
        by blast
      from DEP_REM_index_visit_key [OF i [unfolded index_visits]] a(3)
      have "patient_measurement_year_id g = ix_patient_measurement_year_id i"
        by simp
      with i a show "\<exists>i\<in>set index_visits.
                   ix_PatientId i = PatientId g
                 \<and> index_encounter_id g = ix_EncounterID i
                 \<and> patient_measurement_year_id g = ix_patient_measurement_year_id i
                 \<and> date_of (ix_Date i) \<le> date_of (Date g)
                 \<and> (\<forall>j\<in>set index_visits. ix_PatientId j = PatientId g
                        \<and> date_of (ix_Date j) \<le> date_of (Date g)
                      \<longrightarrow> ix_Date j \<le> ix_Date i)"
        by (intro bexI [of _ i] conjI)
    qed
    from some attributed DEP_REM_set_index_groups_kept [OF Inr]
    show ?thesis
      unfolding Inr sum.case by (intro conjI)
  qed
  from first exists one groups show ?thesis
    by (intro conjI)
qed


theorem C5_index_events_witness:
  "DEP_REM_set_index_groups (DEP_REM_initilize_populace (dr_phq same_day_db))
     (DEP_REM_get_index_visits (DEP_REM_initilize_populace (dr_phq same_day_db)))
   = Inr [\<lparr>PatientId = 1, DOB = Some (Timestamp 1990 5 1 0 0), EncounterID = 10,
            Date = Timestamp 2024 1 15 9 0, Score = Some 3,
            patient_measurement_year_id = ''1-2024'', index_encounter_id = 11\<rparr>,
          \<lparr>PatientId = 1, DOB = Some (Timestamp 1990 5 1 0 0), EncounterID = 11,
            Date = Timestamp 2024 1 15 15 0, Score = Some 12,
            patient_measurement_year_id = ''1-2024'', index_encounter_id = 11\<rparr>,
          \<lparr>PatientId = 2, DOB = Some (Timestamp 1985 3 2 0 0), EncounterID = 20,
            Date = Timestamp 2024 2 1 10 0, Score = Some 15,
            patient_measurement_year_id = ''2-2024'', index_encounter_id = 20\<rparr>,
          \<lparr>PatientId = 2, DOB = Some (Timestamp 1985 3 2 0 0), EncounterID = 21,
            Date = Timestamp 2024 8 5 10 0, Score = Some 3,
            patient_measurement_year_id = ''2-2024'', index_encounter_id = 20\<rparr>]
   \<and> (case DEP_REM_set_index_groups (DEP_REM_initilize_populace (dr_phq same_day_db))
            (DEP_REM_get_index_visits (DEP_REM_initilize_populace (dr_phq same_day_db))) of
        Inl e \<Rightarrow> False
      | Inr grouped \<Rightarrow>
          map visit.truncate grouped =
            filter (\<lambda>v. \<exists>i\<in>set (DEP_REM_get_index_visits
                                      (DEP_REM_initilize_populace (dr_phq same_day_db))).
                          ix_PatientId i = PatientId v
                          \<and> date_of (ix_Date i) \<le> date_of (Date v))
              (DEP_REM_initilize_populace (dr_phq same_day_db)))"
  (is "?run \<and> ?kept")
proof -
  have run: ?run
    by code_simp
  have ?kept
    unfolding run sum.case
    using C5_index_events_and_index_groups [OF refl refl, of "dr_phq same_day_db",
        THEN conjunct2, THEN conjunct2, THEN conjunct2, unfolded run sum.case,
        THEN conjunct2, THEN conjunct2] .
  with run show ?thesis by (rule conjI)
qed


section \<open>DEP-REM: the Medicaid flag of the stratification\<close>














text \<open>The stratification of \<open>expired_plan_db\<close> as the steps before the Medicaid flag build it.\<close>

lemma DEP_REM_stratify_of_expired_plan_db:
  "(case DEP_REM_get_denominator expired_plan_db of
      Inl e \<Rightarrow> None
    | Inr denominator \<Rightarrow>
        (case DEP_REM_get_numerator denominator of
           Inl e \<Rightarrow> None
         | Inr populace \<Rightarrow>
             (case DEP_REM_calculate_age (DEP_REM_initialize_stratify populace) of
                Inl e \<Rightarrow> None
              | Inr aged \<Rightarrow>
                  Some (DEP_REM_get_patient_data aged (dr_patient_details expired_plan_db)))))
   = Some expired_plan_stratify"
  by code_simp



section \<open>DEP-REM: the keys of the stratification\<close>

text \<open>
  The Medicaid flag is stated for a stratification with one row for an index encounter
  and one for a patient and a Date. Every run builds such a stratification: the index
  encounter of a row is determined by its patient and its Date, the later steps only
  remove rows, and \<^verbatim>\<open>__initialize_stratify\<close> keeps one row for an index encounter.
\<close>

lemma distinct_map_determined:
  assumes "distinct (map g xs)"
      and "\<And>a b. a \<in> set xs \<Longrightarrow> b \<in> set xs \<Longrightarrow> f a = f b \<Longrightarrow> g a = g b"
  shows "distinct (map f xs)"
proof -
  from assms(1) have d: "distinct xs" and inj: "inj_on g (set xs)"
    by (simp_all add: distinct_map)
  have "inj_on f (set xs)"
  proof (rule inj_onI)
    fix a b assume a: "a \<in> set xs" and b: "b \<in> set xs" and "f a = f b"
    then have "g a = g b" by (rule assms(2))
    with inj show "a = b" using a b by (rule inj_onD)
  qed
  with d show ?thesis by (simp add: distinct_map)
qed

lemma merge_inner_distinct_right:
  assumes d: "distinct (map kb ys)" and f: "\<And>x y. f (join x y) = g x"
  shows "map f (merge_inner ka kb join xs ys)
         = map g (filter (\<lambda>x. \<exists>y\<in>set ys. kb y = ka x) xs)"
proof -
  have one: "map f (map (join x) (filter (\<lambda>y. kb y = ka x) ys))
             = (if \<exists>y\<in>set ys. kb y = ka x then [g x] else [])" for x
  proof (cases "\<exists>y\<in>set ys. kb y = ka x")
    case True
    then obtain y where y: "y \<in> set ys" "kb y = ka x" by blast
    have "filter (\<lambda>z. kb z = kb y) ys = [y]"
      using d y(1) by (rule filter_distinct_key)
    then have "filter (\<lambda>z. kb z = ka x) ys = [y]"
      by (simp add: y(2))
    with True show ?thesis by (simp add: f)
  next
    case False
    then have "filter (\<lambda>z. kb z = ka x) ys = []"
      by (auto simp: filter_empty_conv)
    with False show ?thesis by simp
  qed
  show ?thesis
    unfolding merge_inner_def
    by (induction xs) (simp_all add: one del: map_map)
qed

lemma distinct_map_drop_duplicates_last: "distinct (map k (drop_duplicates_last k xs))"
  unfolding drop_duplicates_last_def
  by (simp add: rev_map [symmetric] distinct_drop_duplicates)

lemma DEP_REM_create_id_by_patient_and_date:
  "PatientId v = PatientId w \<Longrightarrow> Date v = Date w \<Longrightarrow>
   DEP_REM_create_patient_measurement_year_id v index_visits
   = DEP_REM_create_patient_measurement_year_id w index_visits"
  by (simp add: DEP_REM_create_patient_measurement_year_id_def Let_def)

lemma DEP_REM_index_encounter_by_patient_and_date:
  assumes ok: "DEP_REM_set_index_groups populace index_visits = Inr grouped"
      and a: "a \<in> set grouped" and b: "b \<in> set grouped"
      and same: "PatientId a = PatientId b" "Date a = Date b"
  shows "index_encounter_id a = index_encounter_id b"
proof -
  have row: "\<exists>v uid. DEP_REM_create_patient_measurement_year_id v index_visits
                        = Some (uid, index_encounter_id g)
                    \<and> PatientId v = PatientId g \<and> Date v = Date g"
    if "g \<in> set grouped" for g
  proof -
    from that DEP_REM_set_index_groups_rows [OF ok]
    obtain v where gin: "g \<in> set (case DEP_REM_create_patient_measurement_year_id v index_visits of
             None \<Rightarrow> []
           | Some (uid, enc) \<Rightarrow> [visit.extend v (grouped_visit.fields uid enc)])"
      by auto
    then obtain uid enc
      where some: "DEP_REM_create_patient_measurement_year_id v index_visits = Some (uid, enc)"
        and gv: "g = visit.extend v (grouped_visit.fields uid enc)"
      by (cases "DEP_REM_create_patient_measurement_year_id v index_visits") auto
    from gv have "PatientId v = PatientId g" "Date v = Date g" "index_encounter_id g = enc"
      by (simp_all add: visit.defs grouped_visit.defs)
    with some show ?thesis by auto
  qed
  from row [OF a] obtain v uid
    where v: "DEP_REM_create_patient_measurement_year_id v index_visits
                = Some (uid, index_encounter_id a)"
      "PatientId v = PatientId a" "Date v = Date a"
    by blast
  from row [OF b] obtain w uid'
    where w: "DEP_REM_create_patient_measurement_year_id w index_visits
                = Some (uid', index_encounter_id b)"
      "PatientId w = PatientId b" "Date w = Date b"
    by blast
  have "DEP_REM_create_patient_measurement_year_id v index_visits
        = DEP_REM_create_patient_measurement_year_id w index_visits"
    using v(2,3) w(2,3) same by (intro DEP_REM_create_id_by_patient_and_date) simp_all
  with v(1) w(1) show ?thesis by simp
qed

lemma DEP_REM_remove_exclusions_subset:
  "set (DEP_REM_remove_exclusions populace index_visits exclusions) \<subseteq> set populace"
  by (auto simp: DEP_REM_remove_exclusions_def DEP_REM_filter_out_exclusions_def)

lemma DEP_REM_apply_time_constraint_subset:
  "set (DEP_REM_apply_time_constraint populace) \<subseteq> set populace"
proof
  fix x assume "x \<in> set (DEP_REM_apply_time_constraint populace)"
  then obtain name patient_data
    where g: "(name, patient_data) \<in> set (groupby patient_measurement_year_id populace)"
      and x: "x \<in> set (case patient_data of [] \<Rightarrow> []
                  | index_visit # rest \<Rightarrow>
                      index_visit #
                          filter (\<lambda>r. Date r \<ge> add_days (add_months (Date index_visit) 6) (- 60)
                                   \<and> Date r \<le> add_days (add_months (Date index_visit) 6) 60)
                            patient_data)"
    unfolding DEP_REM_apply_time_constraint_def Let_def by auto
  from g have "set patient_data \<subseteq> set populace"
    by (auto simp: groupby_def)
  moreover from x have "x \<in> set patient_data"
    by (cases patient_data) (auto split: if_splits)
  ultimately show "x \<in> set populace" by blast
qed

lemma DEP_REM_populace_index_encounter_by_patient_and_date:
  assumes den: "DEP_REM_get_denominator db = Inr denominator"
      and num: "DEP_REM_get_numerator denominator = Inr populace"
      and a: "a \<in> set populace" and b: "b \<in> set populace"
      and same: "PatientId a = PatientId b" "Date a = Date b"
  shows "index_encounter_id a = index_encounter_id b"
proof -
  from den obtain grouped
    where ok: "DEP_REM_set_index_groups (DEP_REM_initilize_populace (dr_phq db))
                 (DEP_REM_get_index_visits (DEP_REM_initilize_populace (dr_phq db)))
               = Inr grouped"
      and d: "denominator = DEP_REM_remove_exclusions grouped
                (DEP_REM_get_index_visits (DEP_REM_initilize_populace (dr_phq db)))
                (dr_exclusions db)"
    unfolding DEP_REM_get_denominator_def Let_def
    by (cases "DEP_REM_set_index_groups (DEP_REM_initilize_populace (dr_phq db))
                 (DEP_REM_get_index_visits (DEP_REM_initilize_populace (dr_phq db)))") auto
  from num have p: "populace =
      DEP_REM_set_numerator (DEP_REM_apply_time_constraint denominator)
        (DEP_REM_check_numerator_condition (DEP_REM_apply_time_constraint denominator))"
    unfolding DEP_REM_get_numerator_def DEP_REM_find_performance_met_def
    by (auto split: if_splits)
  have sub: "set (DEP_REM_apply_time_constraint denominator) \<subseteq> set grouped"
    using DEP_REM_apply_time_constraint_subset [of denominator]
      DEP_REM_remove_exclusions_subset [of grouped] unfolding d by blast
  have row: "\<exists>g\<in>set grouped. PatientId g = PatientId x \<and> Date g = Date x
               \<and> index_encounter_id g = index_encounter_id x"
    if "x \<in> set populace" for x
  proof -
    from that obtain g :: grouped_visit and n
      where g: "g \<in> set (DEP_REM_apply_time_constraint denominator)"
        and x: "x = grouped_visit.extend g (scored_visit.fields n)"
      unfolding p DEP_REM_set_numerator_def by auto
    from x have "PatientId g = PatientId x" "Date g = Date x"
      "index_encounter_id g = index_encounter_id x"
      by (simp_all add: grouped_visit.defs scored_visit.defs)
    with g sub show ?thesis by blast
  qed
  from row [OF a] obtain g where g: "g \<in> set grouped" "PatientId g = PatientId a"
    "Date g = Date a" "index_encounter_id g = index_encounter_id a"
    by blast
  from row [OF b] obtain h where h: "h \<in> set grouped" "PatientId h = PatientId b"
    "Date h = Date b" "index_encounter_id h = index_encounter_id b"
    by blast
  have "index_encounter_id g = index_encounter_id h"
    using ok g(1) h(1) by (rule DEP_REM_index_encounter_by_patient_and_date)
      (simp_all add: g h same)
  with g(4) h(4) show ?thesis by simp
qed

lemma DEP_REM_initialize_stratify_rows:
  assumes "r \<in> set (DEP_REM_initialize_stratify populace)"
  shows "\<exists>v\<in>set populace. st_PatientId r = PatientId v \<and> st_Date r = Date v
           \<and> st_index_encounter_id r = index_encounter_id v"
proof -
  have "set (DEP_REM_initialize_stratify populace)
        \<subseteq> set (map (\<lambda>r. \<lparr>st_patient_measurement_year_id = patient_measurement_year_id r,
                       st_PatientId = PatientId r,
                       st_DOB = DOB r,
                       st_index_encounter_id = index_encounter_id r,
                       st_Date = Date r\<rparr>) populace)"
    unfolding DEP_REM_initialize_stratify_def
    using set_drop_duplicates_subset by (fastforce simp: sort_values_def)
  with assms obtain v :: scored_visit where "v \<in> set populace"
    and "r = \<lparr>st_patient_measurement_year_id = patient_measurement_year_id v,
                       st_PatientId = PatientId v,
                       st_DOB = DOB v,
                       st_index_encounter_id = index_encounter_id v,
                       st_Date = Date v\<rparr>"
    by auto
  then show ?thesis by (intro bexI [of _ v]) simp_all
qed

lemma DEP_REM_calculate_age_keeps:
  assumes "DEP_REM_calculate_age stratify = Inr aged"
  shows "map stratify_row.truncate aged =
           filter (\<lambda>r. case calculate_age_days (st_Date r) (st_DOB r) of
                          None \<Rightarrow> False | Some n \<Rightarrow> 12 \<le> n) stratify"
proof -
  have "map stratify_row.truncate
     (map (\<lambda>(r, a). stratify_row.extend r (stratify_aged.fields
              (case a of None \<Rightarrow> ''12-18''
               | Some age \<Rightarrow> if age \<ge> 18 then ''18+'' else ''12-18'')))
        (filter (\<lambda>(r, a). case a of None \<Rightarrow> False | Some n \<Rightarrow> n \<ge> 12)
           (map (\<lambda>r. (r, calculate_age_days (st_Date r) (st_DOB r))) xs)))
   = filter (\<lambda>r. case calculate_age_days (st_Date r) (st_DOB r) of
                          None \<Rightarrow> False | Some n \<Rightarrow> 12 \<le> n) xs" for xs
    by (induction xs) (auto simp: stratify_row.defs stratify_aged.defs split: option.splits)
  moreover from assms have "aged =
     map (\<lambda>(r, a). stratify_row.extend r (stratify_aged.fields
              (case a of None \<Rightarrow> ''12-18''
               | Some age \<Rightarrow> if age \<ge> 18 then ''18+'' else ''12-18'')))
        (filter (\<lambda>(r, a). case a of None \<Rightarrow> False | Some n \<Rightarrow> n \<ge> 12)
           (map (\<lambda>r. (r, calculate_age_days (st_Date r) (st_DOB r))) stratify))"
    unfolding DEP_REM_calculate_age_def Let_def by (auto split: if_splits)
  ultimately show ?thesis by simp
qed

text \<open>
  In every run the stratification that \<^verbatim>\<open>__get_encounter_data\<close> receives has one row for
  an index encounter and one row for a patient and a Date.
\<close>

lemma DEP_REM_stratify_keys:
  assumes den: "DEP_REM_get_denominator db = Inr denominator"
      and num: "DEP_REM_get_numerator denominator = Inr populace"
      and age: "DEP_REM_calculate_age (DEP_REM_initialize_stratify populace) = Inr aged"
  shows "distinct (map st_index_encounter_id
           (DEP_REM_get_patient_data aged (dr_patient_details db)))"
    and "distinct (map (\<lambda>r. (st_PatientId r, st_Date r))
           (DEP_REM_get_patient_data aged (dr_patient_details db)))"
proof -
  define S where "S = DEP_REM_get_patient_data aged (dr_patient_details db)"
  define key where "key = (\<lambda>r::stratify_row. (st_PatientId r, st_Date r, st_index_encounter_id r))"
  define M where "M = (\<lambda>x::stratify_aged.
     \<exists>y\<in>set (drop_duplicates_last pd_PatientId (dr_patient_details db)).
        pd_PatientId y = st_PatientId x)"
  define Q where "Q = (\<lambda>r::stratify_row. case calculate_age_days (st_Date r) (st_DOB r) of
                          None \<Rightarrow> False | Some n \<Rightarrow> (12::int) \<le> n)"
  have kept: "map stratify_row.truncate aged = filter Q (DEP_REM_initialize_stratify populace)"
    unfolding Q_def using age by (rule DEP_REM_calculate_age_keeps)
  have S_rows: "map (\<lambda>r. key (stratify_row.truncate r)) S
                = map (\<lambda>r. key (stratify_row.truncate r)) (filter M aged)"
    unfolding S_def DEP_REM_get_patient_data_def M_def
    by (rule merge_inner_distinct_right [OF distinct_map_drop_duplicates_last])
       (simp add: key_def stratify_row.defs stratify_aged.defs stratify_patient.defs)
  have "distinct (map st_index_encounter_id (DEP_REM_initialize_stratify populace))"
    unfolding DEP_REM_initialize_stratify_def by (rule distinct_drop_duplicates)
  then have "distinct (map st_index_encounter_id
               (filter Q (DEP_REM_initialize_stratify populace)))"
    by (rule distinct_map_filter)
  then have "distinct (map st_index_encounter_id (map stratify_row.truncate aged))"
    unfolding kept .
  then have aged_enc: "distinct (map (\<lambda>r. st_index_encounter_id (stratify_row.truncate r)) aged)"
    by (simp add: comp_def)
  then have "distinct (map (\<lambda>r. st_index_encounter_id (stratify_row.truncate r))
               (filter M aged))"
    by (rule distinct_map_filter)
  then have "distinct (map (\<lambda>k. snd (snd k))
               (map (\<lambda>r. key (stratify_row.truncate r)) (filter M aged)))"
    by (simp add: comp_def key_def)
  then have keys_enc: "distinct (map (\<lambda>k. snd (snd k))
               (map (\<lambda>r. key (stratify_row.truncate r)) S))"
    unfolding S_rows .
  have in_pop: "\<exists>v\<in>set populace. k = (PatientId v, Date v, index_encounter_id v)"
    if "k \<in> set (map (\<lambda>r. key (stratify_row.truncate r)) S)" for k
  proof -
    from that have "k \<in> set (map key (map stratify_row.truncate (filter M aged)))"
      unfolding S_rows by (simp add: comp_def)
    then have "k \<in> set (map key (map stratify_row.truncate aged))"
      by auto
    then have "k \<in> set (map key (filter Q (DEP_REM_initialize_stratify populace)))"
      unfolding kept .
    then obtain r where "r \<in> set (DEP_REM_initialize_stratify populace)" and "k = key r"
      by auto
    with DEP_REM_initialize_stratify_rows [of r populace] show ?thesis
      by (auto simp: key_def)
  qed
  have keys_day: "distinct (map (\<lambda>k. (fst k, fst (snd k)))
               (map (\<lambda>r. key (stratify_row.truncate r)) S))"
    using keys_enc
  proof (rule distinct_map_determined)
    fix k l
    assume k: "k \<in> set (map (\<lambda>r. key (stratify_row.truncate r)) S)"
      and l: "l \<in> set (map (\<lambda>r. key (stratify_row.truncate r)) S)"
      and eq: "(fst k, fst (snd k)) = (fst l, fst (snd l))"
    from in_pop [OF k] obtain v where v: "v \<in> set populace"
      "k = (PatientId v, Date v, index_encounter_id v)" by blast
    from in_pop [OF l] obtain w where w: "w \<in> set populace"
      "l = (PatientId w, Date w, index_encounter_id w)" by blast
    have "index_encounter_id v = index_encounter_id w"
      using den num v(1) w(1)
      by (rule DEP_REM_populace_index_encounter_by_patient_and_date)
         (use eq v(2) w(2) in simp_all)
    then show "snd (snd k) = snd (snd l)"
      by (simp add: v(2) w(2))
  qed
  from keys_enc show "distinct (map st_index_encounter_id
           (DEP_REM_get_patient_data aged (dr_patient_details db)))"
    unfolding S_def [symmetric]
    by (simp add: comp_def key_def stratify_row.defs)
  from keys_day show "distinct (map (\<lambda>r. (st_PatientId r, st_Date r))
           (DEP_REM_get_patient_data aged (dr_patient_details db)))"
    unfolding S_def [symmetric]
    by (simp add: comp_def key_def stratify_row.defs)
qed

end
